theory Spec2Isabelle
  imports Complex_Main
begin

section \<open>Numbers, errors and transaction states\<close>

text \<open>
  Python's \<^verbatim>\<open>Decimal\<close> values are modelled as exact rationals (\<^typ>\<open>rat\<close>): every
  constant of the source (0.025, 0.1, 100.0, ...) is a decimal fraction and the
  operations used (\<open>+\<close>, \<open>-\<close>, \<open>*\<close>, comparison, \<open>max\<close>, \<open>min\<close>) are exact on
  them as long as the result fits the 28 significant digits of the default decimal
  context. Division is written out with its zero check, since Python raises there.
\<close>

type_synonym decimal = rat

text \<open>
  \<^verbatim>\<open>CustomException(code, message, details)\<close>: the code and the message are kept;
  any other Python exception keeps the name of its class.
\<close>

datatype error =
    CustomException string string
  | NameError string
  | AttributeError string
  | KeyError string
  | TypeError string

text \<open>\<^verbatim>\<open>class TransactionState\<close> of \<^verbatim>\<open>transaction-manager.py\<close>.\<close>

datatype TransactionState = PENDING | PROCESSING | COMPLETED | FAILED | REFUNDED | DISPUTED

section \<open>Fee computation (\<^verbatim>\<open>TransactionManager._calculate_fee\<close>)\<close>

record fee_config =
  base_fee_rate :: decimal
  min_fee :: decimal
  max_fee :: decimal
  volume_discount_tiers :: "(decimal \<times> decimal) list"

text \<open>The configuration written in \<^verbatim>\<open>TransactionManager.__init__\<close>.\<close>

definition default_fee_config :: fee_config where
  "default_fee_config =
     \<lparr> base_fee_rate = 25 / 1000,
       min_fee = 1 / 10,
       max_fee = 100,
       volume_discount_tiers =
         [(1000, 2 / 100), (10000, 15 / 1000), (100000, 1 / 100)] \<rparr>"

text \<open>
  \<^verbatim>\<open>sorted(tiers.items(), reverse=True)\<close>: the keys of a dict are distinct, so
  ordering the pairs is ordering their thresholds, largest first.
\<close>

fun insert_desc :: "(decimal \<times> decimal) \<Rightarrow> (decimal \<times> decimal) list \<Rightarrow> (decimal \<times> decimal) list" where
  "insert_desc p [] = [p]"
| "insert_desc p (q # qs) = (if fst q \<le> fst p then p # q # qs else q # insert_desc p qs)"

fun sorted_reverse :: "(decimal \<times> decimal) list \<Rightarrow> (decimal \<times> decimal) list" where
  "sorted_reverse [] = []"
| "sorted_reverse (p # ps) = insert_desc p (sorted_reverse ps)"

text \<open>The \<^verbatim>\<open>for ... if user_volume >= volume_threshold: ...; break\<close> loop.\<close>

fun first_tier :: "decimal \<Rightarrow> decimal \<Rightarrow> (decimal \<times> decimal) list \<Rightarrow> decimal" where
  "first_tier fee_rate user_volume [] = fee_rate"
| "first_tier fee_rate user_volume ((volume_threshold, discount_rate) # rest) =
     (if user_volume \<ge> volume_threshold then discount_rate
      else first_tier fee_rate user_volume rest)"

definition fee_rate_of :: "fee_config \<Rightarrow> decimal \<Rightarrow> decimal" where
  "fee_rate_of cfg user_volume =
     first_tier (base_fee_rate cfg) user_volume (sorted_reverse (volume_discount_tiers cfg))"

definition calculate_fee :: "fee_config \<Rightarrow> decimal \<Rightarrow> decimal \<Rightarrow> decimal" where
  "calculate_fee cfg amount user_volume =
     (let fee_rate = fee_rate_of cfg user_volume;
          fee = amount * fee_rate
      in max (min_fee cfg) (min (max_fee cfg) fee))"

text \<open>\<^verbatim>\<open>total_amount = amount + fee\<close> in \<^verbatim>\<open>create_transaction\<close>.\<close>

definition total_amount_of :: "fee_config \<Rightarrow> decimal \<Rightarrow> decimal \<Rightarrow> decimal" where
  "total_amount_of cfg amount user_volume = amount + calculate_fee cfg amount user_volume"

text \<open>The clamp of the specification, for comparison with the source's \<open>max\<close>/\<open>min\<close>.\<close>

definition clamp :: "decimal \<Rightarrow> decimal \<Rightarrow> decimal \<Rightarrow> decimal" where
  "clamp x lo hi = (if x < lo then lo else if hi < x then hi else x)"

section \<open>Transaction coordinator (\<^verbatim>\<open>transaction-manager.py\<close>)\<close>

text \<open>Timestamps (\<^verbatim>\<open>datetime.utcnow().timestamp()\<close>) are seconds, given by the caller of the model.\<close>

type_synonym timestamp = rat

record dispute_resolution =
  outcome :: string
  refunded :: bool
  resolved_at :: timestamp

record dispute_info =
  opened_by :: string
  reason :: string
  opened_at :: timestamp
  resolution :: "dispute_resolution option"

text \<open>
  The transaction dict. The key \<^verbatim>\<open>'dispute'\<close> does not exist until a dispute is opened,
  hence the option.
\<close>

record transaction =
  transaction_id :: string
  buyer_id :: string
  seller_id :: string
  agent_id :: string
  listing_id :: "string option"
  amount :: decimal
  fee :: decimal
  total_amount :: decimal
  state :: TransactionState
  created_at :: timestamp
  completed_at :: "timestamp option"
  error :: "string option"
  dispute :: "dispute_info option"

record tm_metrics =
  total_transactions :: nat
  successful_transactions :: nat
  failed_transactions :: nat
  total_volume :: decimal
  total_fees :: decimal
  average_completion_time :: rat
  dispute_rate :: rat

text \<open>
  \<^verbatim>\<open>self.transactions\<close> is a dict in insertion order: an association list with
  distinct keys. \<^verbatim>\<open>active_transactions\<close> keeps the ids of the started processing tasks.
\<close>

record transaction_manager =
  transactions :: "(string \<times> transaction) list"
  user_transactions :: "(string \<times> string list) list"
  agent_transactions :: "(string \<times> string list) list"
  active_transactions :: "string list"
  fee_cfg :: fee_config
  metrics :: tm_metrics

text \<open>Dict assignment \<^verbatim>\<open>d[k] = v\<close>: replace in place, or append a new key.\<close>

fun dict_set :: "'k \<Rightarrow> 'v \<Rightarrow> ('k \<times> 'v) list \<Rightarrow> ('k \<times> 'v) list" where
  "dict_set k v [] = [(k, v)]"
| "dict_set k v (p # ps) = (if fst p = k then (k, v) # ps else p # dict_set k v ps)"

definition dict_get :: "('k \<times> 'v) list \<Rightarrow> 'k \<Rightarrow> 'v option" where
  "dict_get d k = map_of d k"

text \<open>
  \<^verbatim>\<open>handle_exceptions\<close> (\<^verbatim>\<open>utils/error-handler.py\<close>): a \<^verbatim>\<open>CustomException\<close> is
  raised again as it is, any other exception becomes
  \<^verbatim>\<open>CustomException("INTERNAL_ERROR", str(e))\<close>. The decorator of
  \<^verbatim>\<open>utils/basic-utils.py\<close> is the same; the one of \<^verbatim>\<open>utils/utils-implementation.py\<close>
  returns the error as a dict with the same code instead of raising it. The texts of
  \<^verbatim>\<open>str(e)\<close> are written without Python's quotation marks.
\<close>

fun str_of_error :: "error \<Rightarrow> string" where
  "str_of_error (CustomException c m) = c @ '': '' @ m"
| "str_of_error (NameError n) = ''name '' @ n @ '' is not defined''"
| "str_of_error (AttributeError n) = ''TokenManager object has no attribute '' @ n"
| "str_of_error (KeyError k) = k"
| "str_of_error (TypeError m) = m"

fun handle_exceptions :: "error \<Rightarrow> error" where
  "handle_exceptions (CustomException c m) = CustomException c m"
| "handle_exceptions e = CustomException ''INTERNAL_ERROR'' (str_of_error e)"

text \<open>
  \<^verbatim>\<open>Validator.validate_token_amount(float(amount))\<close>: \<^verbatim>\<open>amount > 0\<close>. The conversion
  to float keeps the sign of every amount of magnitude above the smallest float.
\<close>

definition validate_token_amount :: "decimal \<Rightarrow> bool" where
  "validate_token_amount a = (a > 0)"

text \<open>
  The methods and attributes that \<^verbatim>\<open>class TokenManager\<close> (\<^verbatim>\<open>token-manager.py\<close>)
  defines. Calling any other name on a \<^verbatim>\<open>TokenManager\<close> raises \<^verbatim>\<open>AttributeError\<close>.
\<close>

definition TokenManager_attributes :: "string list" where
  "TokenManager_attributes =
     [''smart_contract_manager'', ''validator'', ''token_contracts'', ''balance_cache'',
      ''allowance_cache'', ''transaction_history'', ''transfer_lock'', ''performance_metrics'',
      ''initialize_token_contracts'', ''create_wallet'', ''get_balance'', ''_get_token_balance'',
      ''transfer'', ''_update_metrics'', ''check_allowance'', ''approve_spender'',
      ''get_transaction_history'', ''get_metrics'']"

text \<open>
  \<^verbatim>\<open>await self.token_manager.check_balance(buyer_id, float(total_amount))\<close>: the attribute
  lookup comes first; \<open>reply\<close> is what the method would answer if the class had it.
\<close>

definition call_check_balance :: "bool \<Rightarrow> error + bool" where
  "call_check_balance reply =
     (if ''check_balance'' \<in> set TokenManager_attributes then Inr reply
      else Inl (AttributeError ''check_balance''))"

text \<open>
  The buyer's volume: the amounts of the buyer's transactions that are \<^verbatim>\<open>COMPLETED\<close>,
  added in the order of \<^verbatim>\<open>user_transactions[buyer_id]\<close>. An id with no entry in
  \<^verbatim>\<open>transactions\<close> raises \<^verbatim>\<open>KeyError\<close>.
\<close>

fun sum_completed :: "(string \<times> transaction) list \<Rightarrow> string list \<Rightarrow> error + decimal" where
  "sum_completed d [] = Inr 0"
| "sum_completed d (tid # tids) =
     (case dict_get d tid of
        None \<Rightarrow> Inl (KeyError tid)
      | Some t \<Rightarrow>
          (case sum_completed d tids of
             Inl e \<Rightarrow> Inl e
           | Inr v \<Rightarrow> Inr ((if state t = COMPLETED then amount t else 0) + v)))"

definition buyer_volume_of :: "transaction_manager \<Rightarrow> string \<Rightarrow> error + decimal" where
  "buyer_volume_of tm buyer =
     sum_completed (transactions tm)
       (case dict_get (user_transactions tm) buyer of Some ids \<Rightarrow> ids | None \<Rightarrow> [])"

definition index_append :: "string \<Rightarrow> string \<Rightarrow> (string \<times> string list) list \<Rightarrow> (string \<times> string list) list" where
  "index_append k tid d =
     dict_set k ((case dict_get d k of Some ids \<Rightarrow> ids | None \<Rightarrow> []) @ [tid]) d"

text \<open>
  \<^verbatim>\<open>create_transaction\<close>. \<open>new_id\<close> is the uuid drawn, \<open>now\<close> the clock, \<open>reply\<close> the
  answer of the balance check. The result is the returned id or the error raised,
  with the manager's state afterwards.
\<close>

definition create_transaction ::
  "transaction_manager \<Rightarrow> string \<Rightarrow> timestamp \<Rightarrow> bool \<Rightarrow>
   string \<Rightarrow> string \<Rightarrow> string \<Rightarrow> decimal \<Rightarrow> string option \<Rightarrow>
   (error + string) \<times> transaction_manager" where
  "create_transaction tm new_id now reply buyer seller agent amt listing =
     (if buyer = seller then
        (Inl (CustomException ''TRANS_001'' ''Buyer and seller cannot be the same''), tm)
      else if \<not> validate_token_amount amt then
        (Inl (CustomException ''TRANS_002'' ''Invalid transaction amount''), tm)
      else
        case buyer_volume_of tm buyer of
          Inl e \<Rightarrow> (Inl (handle_exceptions e), tm)
        | Inr buyer_volume \<Rightarrow>
        let fee' = calculate_fee (fee_cfg tm) amt buyer_volume;
            total = amt + fee'
        in case call_check_balance reply of
             Inl e \<Rightarrow> (Inl (handle_exceptions e), tm)
           | Inr False \<Rightarrow> (Inl (CustomException ''TRANS_003'' ''Insufficient balance''), tm)
           | Inr True \<Rightarrow>
               let t = \<lparr> transaction_id = new_id, buyer_id = buyer, seller_id = seller,
                         agent_id = agent, listing_id = listing, amount = amt, fee = fee',
                         total_amount = total, state = PENDING, created_at = now,
                         completed_at = None, error = None, dispute = None \<rparr>
               in (Inr new_id,
                   tm\<lparr> transactions := dict_set new_id t (transactions tm),
                       user_transactions :=
                         index_append seller new_id
                           (index_append buyer new_id (user_transactions tm)),
                       agent_transactions := index_append agent new_id (agent_transactions tm),
                       active_transactions := active_transactions tm @ [new_id],
                       metrics := (metrics tm)\<lparr> total_transactions :=
                                     total_transactions (metrics tm) + 1 \<rparr> \<rparr>))"

text \<open>\<^verbatim>\<open>dispute_transaction\<close>.\<close>

definition disputed_count :: "(string \<times> transaction) list \<Rightarrow> nat" where
  "disputed_count d = length (filter (\<lambda>p. state (snd p) = DISPUTED) d)"

definition dispute_transaction ::
  "transaction_manager \<Rightarrow> timestamp \<Rightarrow> string \<Rightarrow> string \<Rightarrow> string \<Rightarrow>
   (error + bool) \<times> transaction_manager" where
  "dispute_transaction tm now tid user_id why =
     (case dict_get (transactions tm) tid of
        None \<Rightarrow> (Inl (CustomException ''TRANS_004'' ''Transaction not found''), tm)
      | Some t \<Rightarrow>
          if user_id \<notin> set [buyer_id t, seller_id t] then
            (Inl (CustomException ''TRANS_005'' ''Unauthorized transaction access''), tm)
          else if state t \<notin> set [COMPLETED, FAILED] then
            (Inl (CustomException ''TRANS_006''
                    ''Transaction cannot be disputed in current state''), tm)
          else
            let t' = t\<lparr> state := DISPUTED,
                        dispute := Some \<lparr> opened_by = user_id, reason = why,
                                          opened_at = now, resolution = None \<rparr> \<rparr>;
                ts = dict_set tid t' (transactions tm);
                total_completed = successful_transactions (metrics tm)
                                  + failed_transactions (metrics tm);
                m = (if total_completed > 0
                     then (metrics tm)\<lparr> dispute_rate :=
                             of_nat (disputed_count ts) / of_nat total_completed \<rparr>
                     else metrics tm)
            in (Inr True, tm\<lparr> transactions := ts, metrics := m \<rparr>))"

text \<open>
  \<^verbatim>\<open>resolve_dispute\<close>. The three steps of a refund (two ledger transfers and the
  ownership change) are calls to collaborators: \<open>refund_steps\<close> is \<open>None\<close> when all three
  return and \<open>Some e\<close> when one of them raises \<open>e\<close>.
\<close>

definition resolve_dispute ::
  "transaction_manager \<Rightarrow> timestamp \<Rightarrow> error option \<Rightarrow> string \<Rightarrow> string \<Rightarrow> bool \<Rightarrow>
   (error + bool) \<times> transaction_manager" where
  "resolve_dispute tm now refund_steps tid res refund =
     (case dict_get (transactions tm) tid of
        None \<Rightarrow> (Inl (CustomException ''TRANS_004'' ''Transaction not found''), tm)
      | Some t \<Rightarrow>
          if state t \<noteq> DISPUTED then
            (Inl (CustomException ''TRANS_007'' ''Transaction is not disputed''), tm)
          else if refund \<and> refund_steps \<noteq> None then
            (Inl (CustomException ''TRANS_008'' ''Refund failed''), tm)
          else
            let t1 = (if refund then t\<lparr> state := REFUNDED \<rparr> else t)
            in case dispute t1 of
                 None \<Rightarrow>
                   (Inl (handle_exceptions (KeyError ''dispute'')),
                    tm\<lparr> transactions := dict_set tid t1 (transactions tm) \<rparr>)
               | Some d \<Rightarrow>
                   let t2 = t1\<lparr> dispute := Some (d\<lparr> resolution :=
                               Some \<lparr> outcome = res, refunded = refund,
                                      resolved_at = now \<rparr> \<rparr>) \<rparr>
                   in (Inr True, tm\<lparr> transactions := dict_set tid t2 (transactions tm) \<rparr>))"

section \<open>Supply stabilizer (\<^verbatim>\<open>dynamic-stabilizer.py\<close>)\<close>

datatype TokenType = MAIN | UTILITY | GOVERNANCE

record stab_metrics =
  total_adjustments :: nat
  successful_adjustments :: nat
  failed_adjustments :: nat
  total_supply_changes :: decimal
  max_price_deviation :: decimal
  average_adjustment_size :: decimal
  price_volatility :: decimal

record control_params =
  kp :: decimal
  ki :: decimal
  kd :: decimal
  integral_error :: decimal
  last_error :: decimal
  damping_factor :: decimal

record market_state =
  current_price :: decimal
  current_supply :: decimal
  demand_rate :: decimal
  supply_rate :: decimal
  liquidity_depth :: decimal

text \<open>
  The fields of \<^verbatim>\<open>DynamicStabilizer\<close>. The two histories are the deques, oldest sample
  first; \<^verbatim>\<open>adjustment_interval\<close> is a Python \<^verbatim>\<open>int\<close>.
\<close>

record stabilizer =
  target_price :: decimal
  price_tolerance :: decimal
  adjustment_interval :: int
  max_adjustment :: decimal
  price_history :: "(timestamp \<times> decimal) list"
  volume_history :: "(timestamp \<times> decimal) list"
  last_adjustment_time :: timestamp
  stab_metrics :: stab_metrics
  control_params :: control_params
  market_state :: market_state

text \<open>The state that \<^verbatim>\<open>__init__\<close> builds from its default arguments at time \<open>now\<close>.\<close>

definition init_stabilizer :: "timestamp \<Rightarrow> stabilizer" where
  "init_stabilizer now =
     \<lparr> target_price = 1, price_tolerance = 2 / 100, adjustment_interval = 3600,
       max_adjustment = 5 / 100, price_history = [], volume_history = [],
       last_adjustment_time = now,
       stab_metrics = \<lparr> total_adjustments = 0, successful_adjustments = 0,
                        failed_adjustments = 0, total_supply_changes = 0,
                        max_price_deviation = 0, average_adjustment_size = 0,
                        price_volatility = 0 \<rparr>,
       control_params = \<lparr> kp = 5 / 10, ki = 1 / 10, kd = 2 / 10, integral_error = 0,
                          last_error = 0, damping_factor = 8 / 10 \<rparr>,
       market_state = \<lparr> current_price = 1, current_supply = 0, demand_rate = 0,
                        supply_rate = 0, liquidity_depth = 0 \<rparr> \<rparr>"

text \<open>What a tick returns when it reaches the end of the adjusting phase.\<close>

record adjust_result =
  res_timestamp :: timestamp
  res_price_error :: decimal
  res_adjustment :: decimal
  res_supply_change :: decimal
  res_success :: bool

text \<open>
  \<^verbatim>\<open>check_and_adjust\<close>. \<open>mint\<close> and \<open>burn\<close> are \<^verbatim>\<open>_mint_tokens\<close> and
  \<^verbatim>\<open>_burn_tokens\<close>: they send the amount to the contract and return its \<^verbatim>\<open>success\<close>
  flag, or \<^verbatim>\<open>False\<close> when the call raises; what the contract answers is an input of
  the model. The result is \<open>Inr None\<close> for a tick that returns \<^verbatim>\<open>None\<close>,
  \<open>Inr (Some r)\<close> for a tick that adjusts, \<open>Inl e\<close> for the error raised; the second
  component is the stabilizer afterwards. Both divisions raise on a zero divisor, and the
  \<^verbatim>\<open>except\<close> clause turns that into \<^verbatim>\<open>STAB_004\<close>.
\<close>

definition check_and_adjust ::
  "(decimal \<Rightarrow> bool) \<Rightarrow> (decimal \<Rightarrow> bool) \<Rightarrow> stabilizer \<Rightarrow> timestamp \<Rightarrow>
   (error + adjust_result option) \<times> stabilizer" where
  "check_and_adjust mint burn s current_time =
     (if current_time - last_adjustment_time s < of_int (adjustment_interval s) then
        (Inr None, s)
      else if target_price s = 0 then
        (Inl (CustomException ''STAB_004'' ''Price adjustment failed''), s)
      else
        let price_error = (current_price (market_state s) - target_price s) / target_price s
        in if \<bar>price_error\<bar> \<le> price_tolerance s then (Inr None, s)
           else
             let cp = control_params s;
                 p_term = kp cp * price_error;
                 cp1 = cp\<lparr> integral_error :=
                          integral_error cp + price_error * of_int (adjustment_interval s) \<rparr>;
                 s1 = s\<lparr> control_params := cp1 \<rparr>;
                 i_term = ki cp1 * integral_error cp1
             in if adjustment_interval s = 0 then
                  (Inl (CustomException ''STAB_004'' ''Price adjustment failed''), s1)
                else
                  let d_term = kd cp1 * (price_error - last_error cp1)
                                 / of_int (adjustment_interval s);
                      raw = - (p_term + i_term + d_term) * damping_factor cp1;
                      adjustment = max (min raw (max_adjustment s)) (- max_adjustment s);
                      supply_change = current_supply (market_state s) * adjustment;
                      success = (if supply_change > 0 then mint supply_change
                                 else burn (- supply_change));
                      m = stab_metrics s1;
                      m1 = m\<lparr> total_adjustments := total_adjustments m + 1 \<rparr>;
                      m2 = (if success then
                              m1\<lparr> successful_adjustments := successful_adjustments m1 + 1,
                                  total_supply_changes :=
                                    total_supply_changes m1 + \<bar>supply_change\<bar>,
                                  average_adjustment_size :=
                                    (average_adjustment_size m1
                                       * of_nat (successful_adjustments m1) + \<bar>adjustment\<bar>)
                                    / of_nat (successful_adjustments m1 + 1) \<rparr>
                            else m1\<lparr> failed_adjustments := failed_adjustments m1 + 1 \<rparr>);
                      s2 = s1\<lparr> stab_metrics := m2,
                               last_adjustment_time := current_time,
                               control_params := cp1\<lparr> last_error := price_error \<rparr> \<rparr>
                  in (Inr (Some \<lparr> res_timestamp = current_time,
                                   res_price_error = price_error,
                                   res_adjustment = adjustment,
                                   res_supply_change = supply_change,
                                   res_success = success \<rparr>), s2))"

text \<open>One sample of the feed given to \<^verbatim>\<open>update_market_state\<close>.\<close>

record market_tx =
  mtx_amount :: decimal
  mtx_price :: decimal
  mtx_token_type :: TokenType

text \<open>\<^verbatim>\<open>deque(maxlen=1000).append\<close>: a full deque drops its oldest element.\<close>

definition deque_append :: "nat \<Rightarrow> 'a list \<Rightarrow> 'a \<Rightarrow> 'a list" where
  "deque_append maxlen xs x = (if length xs \<ge> maxlen then tl xs @ [x] else xs @ [x])"

text \<open>
  A list comprehension \<^verbatim>\<open>[f(x) for x in xs if cond(x)]\<close> whose condition may raise:
  the first element whose condition raises ends the comprehension with that error.
\<close>

fun comprehension :: "('a \<Rightarrow> error + bool) \<Rightarrow> 'a list \<Rightarrow> error + 'a list" where
  "comprehension cond [] = Inr []"
| "comprehension cond (x # xs) =
     (case cond x of
        Inl e \<Rightarrow> Inl e
      | Inr b \<Rightarrow> (case comprehension cond xs of
                    Inl e \<Rightarrow> Inl e
                  | Inr ys \<Rightarrow> Inr (if b then x # ys else ys)))"

text \<open>
  The condition \<^verbatim>\<open>datetime.utcnow() - timedelta(hours=h) <= timestamp\<close> of
  \<^verbatim>\<open>_calculate_demand_rate\<close> and \<^verbatim>\<open>_calculate_liquidity_depth\<close>. The loop binds
  \<^verbatim>\<open>_\<close> and \<^verbatim>\<open>volume\<close>; the name \<^verbatim>\<open>timestamp\<close> is bound nowhere in the function,
  the class or the module, so evaluating the condition raises \<^verbatim>\<open>NameError\<close>.
\<close>

definition recent_cond :: "timestamp \<Rightarrow> (timestamp \<times> decimal) \<Rightarrow> error + bool" where
  "recent_cond cutoff sample = Inl (NameError ''timestamp'')"

definition mean :: "decimal list \<Rightarrow> decimal" where
  "mean vs = (if vs = [] then 0 else sum_list vs / of_nat (length vs))"

definition calculate_demand_rate :: "stabilizer \<Rightarrow> timestamp \<Rightarrow> error + decimal" where
  "calculate_demand_rate s now =
     (if length (volume_history s) < 2 then Inr 0
      else case comprehension (recent_cond (now - 3600)) (volume_history s) of
             Inl e \<Rightarrow> Inl e
           | Inr recent \<Rightarrow> Inr (mean (map snd recent)))"

definition get_initial_supply :: decimal where
  "get_initial_supply = 1000000"

text \<open>
  \<^verbatim>\<open>_calculate_supply_rate\<close>. \<^verbatim>\<open>time_delta\<close> comes from \<^verbatim>\<open>total_seconds()\<close> and is
  a float, \<^verbatim>\<open>supply_delta\<close> is a \<^verbatim>\<open>Decimal\<close>: dividing the one by the other raises
  \<^verbatim>\<open>TypeError\<close>, so the function returns only when it does not divide.
\<close>

definition calculate_supply_rate :: "stabilizer \<Rightarrow> error + decimal" where
  "calculate_supply_rate s =
     (if length (price_history s) < 2 then Inr 0
      else
        let time_delta = fst (last (price_history s)) - fst (hd (price_history s));
            supply_delta = current_supply (market_state s) - get_initial_supply
        in if time_delta > 0
           then Inl (TypeError ''unsupported operand type(s) for /: Decimal and float'')
           else Inr 0)"

definition calculate_liquidity_depth :: "stabilizer \<Rightarrow> timestamp \<Rightarrow> error + decimal" where
  "calculate_liquidity_depth s now =
     (case comprehension (recent_cond (now - 86400)) (volume_history s) of
        Inl e \<Rightarrow> Inl e
      | Inr recent \<Rightarrow> Inr (mean (map snd recent)))"

definition utility_txs :: "market_tx list \<Rightarrow> market_tx list" where
  "utility_txs txs = filter (\<lambda>tx. mtx_token_type tx = UTILITY) txs"

text \<open>
  \<^verbatim>\<open>update_market_state\<close>. \<open>supply_reply\<close> is the outcome of \<^verbatim>\<open>_get_total_supply\<close>
  (a call to the contract). The values of the dict given to \<^verbatim>\<open>market_state.update\<close> are
  evaluated in the order written, before \<^verbatim>\<open>update\<close> is called; every exception of the
  \<^verbatim>\<open>try\<close> block is raised again as \<^verbatim>\<open>STAB_002\<close>.
\<close>

definition new_total_volume :: "market_tx list \<Rightarrow> decimal" where
  "new_total_volume new_transactions = sum_list (map mtx_amount (utility_txs new_transactions))"

definition new_weighted_price :: "stabilizer \<Rightarrow> market_tx list \<Rightarrow> decimal" where
  "new_weighted_price s new_transactions =
     (if new_total_volume new_transactions > 0
      then sum_list (map (\<lambda>tx. mtx_amount tx * mtx_price tx) (utility_txs new_transactions))
             / new_total_volume new_transactions
      else current_price (market_state s))"

text \<open>The two \<^verbatim>\<open>append\<close> calls on the history deques.\<close>

definition append_samples :: "stabilizer \<Rightarrow> timestamp \<Rightarrow> market_tx list \<Rightarrow> stabilizer" where
  "append_samples s now new_transactions =
     s\<lparr> price_history :=
           deque_append 1000 (price_history s) (now, new_weighted_price s new_transactions),
         volume_history :=
           deque_append 1000 (volume_history s) (now, new_total_volume new_transactions) \<rparr>"

definition update_market_state ::
  "stabilizer \<Rightarrow> timestamp \<Rightarrow> (error + decimal) \<Rightarrow> market_tx list \<Rightarrow>
   (error + unit) \<times> stabilizer" where
  "update_market_state s now supply_reply new_transactions =
     (if new_transactions = [] then (Inr (), s)
      else
        let s1 = append_samples s now new_transactions;
            failed = (Inl (CustomException ''STAB_002'' ''Market state update failed''), s1)
        in case supply_reply of
             Inl e \<Rightarrow> failed
           | Inr supply \<Rightarrow>
               (case calculate_demand_rate s1 now of
                  Inl e \<Rightarrow> failed
                | Inr demand \<Rightarrow>
                    (case calculate_supply_rate s1 of
                       Inl e \<Rightarrow> failed
                     | Inr srate \<Rightarrow>
                         (case calculate_liquidity_depth s1 now of
                            Inl e \<Rightarrow> failed
                          | Inr depth \<Rightarrow>
                              let s2 = s1\<lparr> market_state :=
                                            \<lparr> current_price = new_weighted_price s new_transactions,
                                              current_supply = supply,
                                              demand_rate = demand,
                                              supply_rate = srate,
                                              liquidity_depth = depth \<rparr> \<rparr>
                              in if target_price s = 0
                                 then (Inl (CustomException ''STAB_002''
                                              ''Market state update failed''), s2)
                                 else (Inr (), s2)))))"

section \<open>Token ledger (\<^verbatim>\<open>token-manager.py\<close>)\<close>

text \<open>
  The ledger executor is the \<^verbatim>\<open>smart_contract_manager\<close> given to \<^verbatim>\<open>TokenManager\<close>:
  the ledger calls its \<^verbatim>\<open>send_transaction(function_name, args, private_key,
  gas_price_gwei)\<close> and reads the keys \<^verbatim>\<open>success\<close>, \<^verbatim>\<open>data\<close>, \<^verbatim>\<open>receipt\<close> and
  \<^verbatim>\<open>error\<close> of the dict it answers; a key that is absent is \<open>None\<close> here. The
  executor is a parameter of the ledger's operations: a function from the chain's state
  and a request to the answer and the chain's next state.
\<close>

datatype arg = Addr string | Wei int | Amount decimal

record request =
  function_name :: string
  args :: "arg list"
  private_key :: "string option"
  gas_price_gwei :: "int option"

record receipt =
  gasUsed :: nat
  blockNumber :: nat

record send_result =
  success :: bool
  transaction_hash :: "string option"
  data :: "decimal option"
  receipt :: "receipt option"
  err :: "string option"

type_synonym 'c executor = "'c \<Rightarrow> request \<Rightarrow> send_result \<times> 'c"

text \<open>
  \<^verbatim>\<open>SmartContractManager.send_transaction\<close> (\<^verbatim>\<open>utils-implementation.py\<close>). The node
  behind \<^verbatim>\<open>web3\<close> and the contract it serves are outside the source; they are the
  parameter \<open>nd\<close>, one function for each stage of the \<^verbatim>\<open>try\<close> block:
  \<^item> \<open>prepare\<close>: \<^verbatim>\<open>Account.from_key\<close>, the lookup of the contract function,
    \<^verbatim>\<open>build_transaction\<close> (with the nonce and gas price read from the node) and
    \<^verbatim>\<open>sign_transaction\<close>; it gives the signed transaction or raises, and only reads
    the chain;
  \<^item> \<open>send_raw_transaction\<close>: the broadcast; it gives the hash or raises, and the chain
    afterwards;
  \<^item> \<open>wait_for_transaction_receipt\<close>: it gives the receipt or raises, and the chain
    afterwards.
  Whatever is raised is caught and answered as \<^verbatim>\<open>{'success': False, 'error': str(e)}\<close>,
  also after the broadcast. The successful answer carries \<^verbatim>\<open>transaction_hash\<close> and
  \<^verbatim>\<open>receipt\<close>, and never \<^verbatim>\<open>data\<close>.
\<close>

record ('c, 'x) node =
  prepare :: "'c \<Rightarrow> request \<Rightarrow> string + 'x"
  send_raw_transaction :: "'c \<Rightarrow> 'x \<Rightarrow> (string + string) \<times> 'c"
  wait_for_transaction_receipt :: "'c \<Rightarrow> string \<Rightarrow> (string + receipt) \<times> 'c"

definition fail_result :: "string \<Rightarrow> send_result" where
  "fail_result m =
     \<lparr> success = False, transaction_hash = None, data = None, receipt = None, err = Some m \<rparr>"

definition send_transaction :: "('c, 'x) node \<Rightarrow> 'c executor" where
  "send_transaction nd c rq =
     (case prepare nd c rq of
        Inl e \<Rightarrow> (fail_result e, c)
      | Inr signed_txn \<Rightarrow>
          (case send_raw_transaction nd c signed_txn of
             (Inl e, c1) \<Rightarrow> (fail_result e, c1)
           | (Inr tx_hash, c1) \<Rightarrow>
               (case wait_for_transaction_receipt nd c1 tx_hash of
                  (Inl e, c2) \<Rightarrow> (fail_result e, c2)
                | (Inr tx_receipt, c2) \<Rightarrow>
                    (\<lparr> success = True, transaction_hash = Some tx_hash, data = None,
                       receipt = Some tx_receipt, err = None \<rparr>, c2))))"


text \<open>The record that \<^verbatim>\<open>transfer\<close> appends to \<^verbatim>\<open>transaction_history\<close>.\<close>

record transfer_record =
  tr_transaction_id :: string
  tr_from_address :: string
  tr_to_address :: string
  tr_amount :: decimal
  tr_token_type :: TokenType
  tr_status :: string
  tr_timestamp :: timestamp
  tr_gas_used :: "nat option"
  tr_block_number :: "nat option"
  tr_confirmation_time :: "timestamp option"
  tr_error :: "string option"

record performance_metrics =
  pm_total_transactions :: nat
  pm_successful_transactions :: nat
  pm_failed_transactions :: nat
  pm_average_confirmation_time :: rat
  pm_total_volume :: "TokenType \<Rightarrow> decimal"

record token_manager =
  token_contracts :: "TokenType \<rightharpoonup> string"
  balance_cache :: "string \<rightharpoonup> (TokenType \<rightharpoonup> decimal)"
  transaction_history :: "transfer_record list"
  performance_metrics :: performance_metrics

text \<open>What a successful \<^verbatim>\<open>transfer\<close> returns.\<close>

record transfer_receipt =
  rc_transaction_id :: string
  rc_block_number :: nat
  rc_gas_used :: nat

text \<open>
  \<^verbatim>\<open>Validator.validate_ethereum_address\<close>: \<^verbatim>\<open>re.match(r'^0x[a-fA-F0-9]{40}$', address)\<close>.
  In Python \<^verbatim>\<open>$\<close> also matches before one final newline.
\<close>

definition is_hex_char :: "char \<Rightarrow> bool" where
  "is_hex_char c = (c \<in> set ''0123456789abcdefABCDEF'')"

definition validate_ethereum_address :: "string \<Rightarrow> bool" where
  "validate_ethereum_address address =
     (take 2 address = ''0x'' \<and>
      (let r = drop 2 address
       in (length r = 40 \<or> (length r = 41 \<and> last r = CHR 0x0A))
          \<and> list_all is_hex_char (take 40 r)))"

text \<open>
  \<^verbatim>\<open>get_balance(address, token_type)\<close> with a token type given. Every exception of the
  \<^verbatim>\<open>try\<close> block (the missing contract address, \<^verbatim>\<open>TOKEN_006\<close> of
  \<^verbatim>\<open>_get_token_balance\<close>, a reply without \<^verbatim>\<open>data\<close>) is raised again as \<^verbatim>\<open>TOKEN_005\<close>.
  A successful read replaces the cache entry of the address.
\<close>

definition balanceOf_request :: "string \<Rightarrow> request" where
  "balanceOf_request address =
     \<lparr> function_name = ''balanceOf'', args = [Addr address], private_key = None,
       gas_price_gwei = Some 0 \<rparr>"

definition get_balance ::
  "'c executor \<Rightarrow> token_manager \<times> 'c \<Rightarrow> string \<Rightarrow> TokenType \<Rightarrow>
   (error + decimal) \<times> token_manager \<times> 'c" where
  "get_balance ex w address token_type =
     (let tm = fst w; c = snd w
      in if \<not> validate_ethereum_address address then
           (Inl (CustomException ''TOKEN_004'' ''Invalid wallet address''), tm, c)
         else case token_contracts tm token_type of
                None \<Rightarrow> (Inl (CustomException ''TOKEN_005'' ''Failed to fetch balance''), tm, c)
              | Some contract_address \<Rightarrow>
                  let (result, c') = ex c (balanceOf_request address)
                  in if \<not> success result then
                       (Inl (CustomException ''TOKEN_005'' ''Failed to fetch balance''), tm, c')
                     else case data result of
                            None \<Rightarrow>
                              (Inl (CustomException ''TOKEN_005'' ''Failed to fetch balance''),
                               tm, c')
                          | Some bal \<Rightarrow>
                              (Inr bal,
                               tm\<lparr> balance_cache :=
                                     (balance_cache tm)(address \<mapsto> [token_type \<mapsto> bal]) \<rparr>,
                               c'))"

text \<open>\<^verbatim>\<open>_update_metrics\<close>.\<close>

definition update_metrics :: "performance_metrics \<Rightarrow> transfer_record \<Rightarrow> performance_metrics" where
  "update_metrics pm r =
     (let pm1 = pm\<lparr> pm_total_transactions := pm_total_transactions pm + 1 \<rparr>
      in if tr_status r = ''completed'' then
           let n = pm_successful_transactions pm1 + 1
           in pm1\<lparr> pm_successful_transactions := n,
                   pm_total_volume := (pm_total_volume pm1)
                     (tr_token_type r := pm_total_volume pm1 (tr_token_type r) + tr_amount r),
                   pm_average_confirmation_time :=
                     (pm_average_confirmation_time pm1 * (of_nat n - 1)
                        + (case tr_confirmation_time r of Some d \<Rightarrow> d | None \<Rightarrow> 0))
                     / of_nat n \<rparr>
         else pm1\<lparr> pm_failed_transactions := pm_failed_transactions pm1 + 1 \<rparr>)"

text \<open>\<^verbatim>\<open>int(amount * 10**18)\<close>: the amount in wei, truncated towards zero.\<close>

definition to_wei :: "decimal \<Rightarrow> int" where
  "to_wei a = (if a \<ge> 0 then \<lfloor>a * 10 ^ 18\<rfloor> else \<lceil>a * 10 ^ 18\<rceil>)"

definition transfer_request :: "string \<Rightarrow> decimal \<Rightarrow> string option \<Rightarrow> request" where
  "transfer_request to_address a key =
     \<lparr> function_name = ''transfer'', args = [Addr to_address, Wei (to_wei a)],
       private_key = key, gas_price_gwei = None \<rparr>"

text \<open>
  The \<^verbatim>\<open>except\<close> and \<^verbatim>\<open>finally\<close> clauses of \<^verbatim>\<open>transfer\<close>: the record is marked
  \<^verbatim>\<open>'failed'\<close> with the text of the exception, appended to the history, and
  \<^verbatim>\<open>TOKEN_008\<close> is raised.
\<close>

definition transfer_failed ::
  "token_manager \<Rightarrow> transfer_record \<Rightarrow> error \<Rightarrow> (error + transfer_receipt) \<times> token_manager" where
  "transfer_failed tm r e =
     (Inl (CustomException ''TOKEN_008'' ''Transfer failed''),
      tm\<lparr> transaction_history :=
            transaction_history tm
              @ [r\<lparr> tr_status := ''failed'', tr_error := Some (str_of_error e) \<rparr>] \<rparr>)"

text \<open>
  \<^verbatim>\<open>transfer\<close>. \<open>new_id\<close> is the uuid drawn; \<open>now\<close>, \<open>start_time\<close> and \<open>end_time\<close>
  are the three readings of the clock. The result is the returned dict or the error
  raised, with the manager and the chain afterwards.
\<close>

definition transfer ::
  "'c executor \<Rightarrow> token_manager \<times> 'c \<Rightarrow> string \<Rightarrow> timestamp \<Rightarrow> timestamp \<Rightarrow> timestamp \<Rightarrow>
   string \<Rightarrow> string \<Rightarrow> decimal \<Rightarrow> TokenType \<Rightarrow> string option \<Rightarrow>
   (error + transfer_receipt) \<times> token_manager \<times> 'c" where
  "transfer ex w new_id now start_time end_time from_address to_address amt token_type key =
     (let tm = fst w; c = snd w
      in if \<not> (validate_ethereum_address from_address \<and> validate_ethereum_address to_address)
         then (Inl (CustomException ''TOKEN_004'' ''Invalid wallet address''), tm, c)
         else if \<not> validate_token_amount amt
         then (Inl (CustomException ''TOKEN_007'' ''Invalid transfer amount''), tm, c)
         else
           case get_balance ex w from_address token_type of
             (Inl e, tm1, c1) \<Rightarrow> (Inl (handle_exceptions e), tm1, c1)
           | (Inr sender_balance, tm1, c1) \<Rightarrow>
               if sender_balance < amt then
                 (Inl (CustomException ''TOKEN_001'' ''Insufficient balance''), tm1, c1)
               else
                 let r = \<lparr> tr_transaction_id = new_id, tr_from_address = from_address,
                           tr_to_address = to_address, tr_amount = amt,
                           tr_token_type = token_type, tr_status = ''pending'',
                           tr_timestamp = now, tr_gas_used = None, tr_block_number = None,
                           tr_confirmation_time = None, tr_error = None \<rparr>
                 in case token_contracts tm1 token_type of
                      None \<Rightarrow>
                        (let (res, tm2) = transfer_failed tm1 r
                                            (KeyError ''token_type'')
                         in (res, tm2, c1))
                    | Some contract_address \<Rightarrow>
                        let (result, c2) = ex c1 (transfer_request to_address amt key)
                        in if \<not> success result then
                             (let (res, tm2) = transfer_failed tm1 r
                                                 (CustomException ''TOKEN_008'' ''Transfer failed'')
                              in (res, tm2, c2))
                           else case receipt result of
                                  None \<Rightarrow>
                                    (let (res, tm2) = transfer_failed tm1 r
                                                        (KeyError ''receipt'')
                                     in (res, tm2, c2))
                                | Some rcpt \<Rightarrow>
                                    let r1 = r\<lparr> tr_status := ''completed'',
                                                tr_gas_used := Some (gasUsed rcpt),
                                                tr_block_number := Some (blockNumber rcpt),
                                                tr_confirmation_time :=
                                                  Some (end_time - start_time) \<rparr>;
                                        tm2 = tm1\<lparr> performance_metrics :=
                                                     update_metrics (performance_metrics tm1) r1,
                                                   balance_cache :=
                                                     ((balance_cache tm1)(from_address := None))
                                                       (to_address := None),
                                                   transaction_history :=
                                                     transaction_history tm1 @ [r1] \<rparr>
                                    in (Inr \<lparr> rc_transaction_id = new_id,
                                              rc_block_number = blockNumber rcpt,
                                              rc_gas_used = gasUsed rcpt \<rparr>, tm2, c2))"

section \<open>The account registry behind the executor\<close>

text \<open>
  Modelled from the spec: the Account Registry and the Token Ledger's \<open>Transfer\<close>,
  \<open>Mint\<close> and \<open>Burn\<close> on it (sections 3 and 4.1). The source keeps no balances:
  \<^verbatim>\<open>TokenManager.transfer\<close>, \<^verbatim>\<open>_mint_tokens\<close> and \<^verbatim>\<open>_burn_tokens\<close> send the
  request to a token contract through \<^verbatim>\<open>send_transaction\<close> and only cache what
  \<^verbatim>\<open>balanceOf\<close> answers; the contract that debits and credits is not among the source
  files. An account maps each token type to a balance; accounts are created on first
  reference; \<open>Mint\<close> and \<open>Burn\<close> change the total supply and the balance of one
  holding account.
\<close>

record ledger =
  accounts :: "string list"
  balance :: "string \<Rightarrow> TokenType \<Rightarrow> decimal"
  total_supply :: "TokenType \<Rightarrow> decimal"

datatype ledger_error = InvalidAmount | InsufficientBalance | InsufficientSupply

definition treasury :: string where
  "treasury = ''treasury''"

definition touch :: "string \<Rightarrow> ledger \<Rightarrow> ledger" where
  "touch a l = (if a \<in> set (accounts l) then l else l\<lparr> accounts := accounts l @ [a] \<rparr>)"

definition add_balance :: "string \<Rightarrow> TokenType \<Rightarrow> decimal \<Rightarrow> ledger \<Rightarrow> ledger" where
  "add_balance a t d l =
     l\<lparr> balance := (balance l)(a := (balance l a)(t := balance l a t + d)) \<rparr>"

text \<open>
  Modelled from the spec: \<open>Transfer(from, to, amount, tokenType)\<close> needs
  \<open>amount > 0\<close> and a sufficient balance at \<open>from\<close>, and on success debits \<open>from\<close> and
  credits \<open>to\<close>.
\<close>

definition ledger_transfer ::
  "ledger \<Rightarrow> string \<Rightarrow> string \<Rightarrow> decimal \<Rightarrow> TokenType \<Rightarrow> ledger_error + ledger" where
  "ledger_transfer l from_account to_account amt t =
     (if amt \<le> 0 then Inl InvalidAmount
      else if balance l from_account t < amt then Inl InsufficientBalance
      else Inr (add_balance to_account t amt
                  (add_balance from_account t (- amt) (touch to_account (touch from_account l)))))"

text \<open>
  Modelled from the spec: \<open>Mint(tokenType, amount)\<close> and \<open>Burn(tokenType, amount)\<close>
  increase and decrease the total supply and the holding account; both fail with
  \<open>InvalidAmount\<close> if \<open>amount <= 0\<close>, and \<open>Burn\<close> fails with \<open>InsufficientSupply\<close> if
  the total supply would go negative. An account's balance is a non-negative amount and
  no balance is ever negative (section 3), so a \<open>Burn\<close> that would take the holding
  account below zero is refused in the same way.
\<close>

definition ledger_mint :: "ledger \<Rightarrow> TokenType \<Rightarrow> decimal \<Rightarrow> ledger_error + ledger" where
  "ledger_mint l t amt =
     (if amt \<le> 0 then Inl InvalidAmount
      else Inr ((add_balance treasury t amt (touch treasury l))
                  \<lparr> total_supply := (total_supply l)(t := total_supply l t + amt) \<rparr>))"

definition ledger_burn :: "ledger \<Rightarrow> TokenType \<Rightarrow> decimal \<Rightarrow> ledger_error + ledger" where
  "ledger_burn l t amt =
     (if amt \<le> 0 then Inl InvalidAmount
      else if total_supply l t - amt < 0 \<or> balance l treasury t - amt < 0
      then Inl InsufficientSupply
      else Inr ((add_balance treasury t (- amt) (touch treasury l))
                  \<lparr> total_supply := (total_supply l)(t := total_supply l t - amt) \<rparr>))"

datatype ledger_op =
    Transfer string string decimal TokenType
  | Mint TokenType decimal
  | Burn TokenType decimal

fun apply_op :: "ledger \<Rightarrow> ledger_op \<Rightarrow> ledger_error + ledger" where
  "apply_op l (Transfer f t a ty) = ledger_transfer l f t a ty"
| "apply_op l (Mint ty a) = ledger_mint l ty a"
| "apply_op l (Burn ty a) = ledger_burn l ty a"

text \<open>A sequence of operations, each of which has to succeed.\<close>

fun run_ops :: "ledger \<Rightarrow> ledger_op list \<Rightarrow> ledger_error + ledger" where
  "run_ops l [] = Inr l"
| "run_ops l (x # xs) = (case apply_op l x of Inl e \<Rightarrow> Inl e | Inr l' \<Rightarrow> run_ops l' xs)"

fun minted :: "TokenType \<Rightarrow> ledger_op list \<Rightarrow> decimal" where
  "minted t [] = 0"
| "minted t (Mint ty a # xs) = (if ty = t then a else 0) + minted t xs"
| "minted t (x # xs) = minted t xs"

fun burned :: "TokenType \<Rightarrow> ledger_op list \<Rightarrow> decimal" where
  "burned t [] = 0"
| "burned t (Burn ty a # xs) = (if ty = t then a else 0) + burned t xs"
| "burned t (x # xs) = burned t xs"

text \<open>The sum of all account balances of a token type.\<close>

definition sum_balances :: "ledger \<Rightarrow> TokenType \<Rightarrow> decimal" where
  "sum_balances l t = sum_list (map (\<lambda>a. balance l a t) (accounts l))"

text \<open>
  A registry is well formed when no account is listed twice and an account that was
  never referenced holds nothing.
\<close>

definition wf_ledger :: "ledger \<Rightarrow> bool" where
  "wf_ledger l = (distinct (accounts l) \<and> (\<forall>a t. a \<notin> set (accounts l) \<longrightarrow> balance l a t = 0))"

definition empty_ledger :: ledger where
  "empty_ledger = \<lparr> accounts = [], balance = (\<lambda>a t. 0), total_supply = (\<lambda>t. 0) \<rparr>"

text \<open>
  Modelled from the spec: a node whose token contract, of token type \<open>ty\<close>, keeps its
  balances in this registry (the contract is not among the source files). A private
  key stands for the account it controls, and without a key nothing can be signed. The
  broadcast of a \<^verbatim>\<open>transfer\<close> moves the amount, given in wei, from the signer to the
  address given, by the registry's \<open>Transfer\<close>; a move that the registry refuses
  raises at the broadcast and changes nothing. The receipt always arrives.
\<close>

record signed_tx =
  stx_signer :: string
  stx_function :: string
  stx_args :: "arg list"

definition registry_prepare :: "ledger \<Rightarrow> request \<Rightarrow> string + signed_tx" where
  "registry_prepare l rq =
     (case private_key rq of
        None \<Rightarrow> Inl ''no private key''
      | Some k \<Rightarrow>
          Inr \<lparr> stx_signer = k, stx_function = function_name rq, stx_args = args rq \<rparr>)"

definition registry_send ::
  "TokenType \<Rightarrow> ledger \<Rightarrow> signed_tx \<Rightarrow> (string + string) \<times> ledger" where
  "registry_send ty l x =
     (if stx_function x = ''transfer'' then
        (case stx_args x of
           [Addr to_account, Wei w] \<Rightarrow>
             (case ledger_transfer l (stx_signer x) to_account (of_int w / 10 ^ 18) ty of
                Inl e \<Rightarrow> (Inl ''execution reverted'', l)
              | Inr l' \<Rightarrow> (Inr ''0x01'', l'))
         | _ \<Rightarrow> (Inl ''bad arguments'', l))
      else (Inl ''unknown function'', l))"

definition registry_node :: "TokenType \<Rightarrow> (ledger, signed_tx) node" where
  "registry_node ty =
     \<lparr> prepare = registry_prepare,
       send_raw_transaction = registry_send ty,
       wait_for_transaction_receipt =
         (\<lambda>l h. (Inr \<lparr> gasUsed = 21000, blockNumber = 1 \<rparr>, l)) \<rparr>"


text \<open>The source's \<^verbatim>\<open>send_transaction\<close> on the registry's node.\<close>

definition ledger_executor :: "TokenType \<Rightarrow> ledger executor" where
  "ledger_executor ty = send_transaction (registry_node ty)"


section \<open>Concrete states used in the examples\<close>

definition example_transaction :: transaction where
  "example_transaction =
     \<lparr> transaction_id = ''t1'', buyer_id = ''alice'', seller_id = ''bob'',
       agent_id = ''agent'', listing_id = None, amount = 1000, fee = 25,
       total_amount = 1025, state = COMPLETED, created_at = 0,
       completed_at = Some 1, error = None, dispute = None \<rparr>"

definition example_manager :: transaction_manager where
  "example_manager =
     \<lparr> transactions = [(''t1'', example_transaction)],
       user_transactions = [(''alice'', [''t1'']), (''bob'', [''t1''])],
       agent_transactions = [(''agent'', [''t1''])],
       active_transactions = [],
       fee_cfg = default_fee_config,
       metrics = \<lparr> total_transactions = 1, successful_transactions = 1,
                   failed_transactions = 0, total_volume = 1000, total_fees = 25,
                   average_completion_time = 1, dispute_rate = 0 \<rparr> \<rparr>"

text \<open>The same manager after alice has opened a dispute at time 5.\<close>

definition disputed_transaction :: transaction where
  "disputed_transaction =
     example_transaction\<lparr> state := DISPUTED,
       dispute := Some \<lparr> opened_by = ''alice'', reason = ''broken'', opened_at = 5,
                         resolution = None \<rparr> \<rparr>"

definition disputed_manager :: transaction_manager where
  "disputed_manager =
     example_manager\<lparr> transactions := [(''t1'', disputed_transaction)],
       metrics := (metrics example_manager)\<lparr> dispute_rate := 1 \<rparr> \<rparr>"

text \<open>
  A stabilizer with the default parameters, created at time 0, whose market state shows
  a price of 1.05 and a supply of one million.
\<close>

definition example_stabilizer :: stabilizer where
  "example_stabilizer =
     (init_stabilizer 0)\<lparr> market_state :=
        (market_state (init_stabilizer 0))\<lparr> current_price := 105 / 100,
                                            current_supply := 1000000 \<rparr> \<rparr>"

definition addr_a :: string where
  "addr_a = ''0xaaaaaaaaaaaaaaaaaaaaaaaaaaaaaaaaaaaaaaaa''"




text \<open>Every balance of every listed account is non-negative.\<close>

definition nonneg :: "ledger \<Rightarrow> bool" where
  "nonneg l = list_all (\<lambda>a. list_all (\<lambda>t. 0 \<le> balance l a t) [MAIN, UTILITY, GOVERNANCE])
                       (accounts l)"

definition mint_transfer_burn :: "ledger_op list" where
  "mint_transfer_burn =
     [Mint UTILITY 100, Transfer treasury addr_a 30 UTILITY, Burn UTILITY 20]"


section \<open>Properties\<close>

subsection \<open>Fees\<close>

lemma default_tiers_sorted:
  "sorted_reverse (volume_discount_tiers default_fee_config) =
     [(100000, 1 / 100), (10000, 15 / 1000), (1000, 2 / 100)]"
  by (simp add: default_fee_config_def)

lemma default_fee_rate:
  "fee_rate_of default_fee_config v =
     (if v \<ge> 100000 then 1 / 100 else if v \<ge> 10000 then 15 / 1000
      else if v \<ge> 1000 then 2 / 100 else 25 / 1000)"
  by (simp add: fee_rate_of_def default_tiers_sorted) (simp add: default_fee_config_def)

text \<open>
  C6. With the fee table of the source, the rate does not increase with the buyer's
  volume; the fee is the product of amount and rate clamped to
  \<open>[min_fee, max_fee]\<close>; the total is amount plus fee; and a buyer with no volume
  pays 25 on 1000, 1025 in total.
\<close>

theorem C6_fee_computation:
  "(v1 \<le> v2 \<longrightarrow> fee_rate_of default_fee_config v2 \<le> fee_rate_of default_fee_config v1)
   \<and> calculate_fee default_fee_config a v =
       clamp (a * fee_rate_of default_fee_config v)
         (min_fee default_fee_config) (max_fee default_fee_config)
   \<and> total_amount_of default_fee_config a v =
       a + calculate_fee default_fee_config a v
   \<and> fee_rate_of default_fee_config 0 = 25 / 1000
   \<and> calculate_fee default_fee_config 1000 0 = 25
   \<and> total_amount_of default_fee_config 1000 0 = 1025"
proof -
  have mono: "v1 \<le> v2 \<longrightarrow> fee_rate_of default_fee_config v2 \<le> fee_rate_of default_fee_config v1"
    by (simp add: default_fee_rate)
  have cl: "calculate_fee default_fee_config a v =
       clamp (a * fee_rate_of default_fee_config v)
         (min_fee default_fee_config) (max_fee default_fee_config)"
    by (simp add: calculate_fee_def clamp_def Let_def default_fee_config_def max_def min_def)
  have r0: "fee_rate_of default_fee_config 0 = 25 / 1000"
    by (simp add: default_fee_rate)
  have f0: "calculate_fee default_fee_config 1000 0 = 25"
    by (simp add: calculate_fee_def Let_def r0) (simp add: default_fee_config_def)
  show ?thesis
    using mono cl r0 f0 by (simp add: total_amount_of_def)
qed

theorem C6_fee_computation_witness:
  "(500::rat) \<le> 20000
   \<and> fee_rate_of default_fee_config 20000 \<le> fee_rate_of default_fee_config 500
   \<and> fee_rate_of default_fee_config 20000 = 15 / 1000
   \<and> fee_rate_of default_fee_config 500 = 25 / 1000"
  using C6_fee_computation [of 500 20000 1 0] by (simp add: default_fee_rate)

subsection \<open>Transaction coordinator\<close>

lemma dict_get_dict_set:
  "dict_get (dict_set k v d) k' = (if k' = k then Some v else dict_get d k')"
  by (induction d) (auto simp: dict_get_def)

lemma example_lookup: "dict_get (transactions example_manager) ''t1'' = Some example_transaction"
  by (simp add: example_manager_def dict_get_def)

lemma disputed_lookup: "dict_get (transactions disputed_manager) ''t1'' = Some disputed_transaction"
  by (simp add: disputed_manager_def dict_get_def)

lemma sum_completed_error: "sum_completed d tids = Inl e \<Longrightarrow> \<exists>k. e = KeyError k"
  by (induction tids) (auto split: option.splits sum.splits)

text \<open>
  C4 (as the source behaves). Whenever buyer and seller differ and the amount is
  positive, \<^verbatim>\<open>create_transaction\<close> never gets past the balance check:
  \<^verbatim>\<open>TokenManager\<close> has no \<^verbatim>\<open>check_balance\<close>, the \<^verbatim>\<open>AttributeError\<close> comes back
  as \<^verbatim>\<open>INTERNAL_ERROR\<close> (as a \<^verbatim>\<open>KeyError\<close> of the volume computation would), and
  no transaction is stored, whatever the buyer's balance is.
\<close>

theorem C4_create_transaction_stops_at_balance_check:
  assumes "buyer \<noteq> seller" and "validate_token_amount amt"
  shows "create_transaction tm new_id now reply buyer seller agent amt listing =
     (Inl (CustomException ''INTERNAL_ERROR''
             (case buyer_volume_of tm buyer of
                Inl e \<Rightarrow> str_of_error e
              | Inr v \<Rightarrow> ''TokenManager object has no attribute check_balance'')), tm)"
proof (cases "buyer_volume_of tm buyer")
  case (Inl e)
  then have "\<exists>k. e = KeyError k"
    unfolding buyer_volume_of_def by (rule sum_completed_error)
  then obtain k where "e = KeyError k" by blast
  with Inl assms show ?thesis by (simp add: create_transaction_def)
next
  case (Inr v)
  with assms show ?thesis
    by (simp add: create_transaction_def Let_def call_check_balance_def
                  TokenManager_attributes_def)
qed

theorem C4_create_transaction_stops_at_balance_check_witness:
  "''alice'' \<noteq> ''bob'' \<and> validate_token_amount 1000
   \<and> buyer_volume_of example_manager ''alice'' = Inr 1000
   \<and> create_transaction example_manager ''t2'' 3 True ''alice'' ''bob'' ''agent'' 1000 None =
       (Inl (CustomException ''INTERNAL_ERROR''
               ''TokenManager object has no attribute check_balance''), example_manager)
   \<and> dict_get (transactions (snd (create_transaction example_manager ''t2'' 3 True
                                    ''alice'' ''bob'' ''agent'' 1000 None))) ''t2'' = None"
proof -
  have a: "''alice'' \<noteq> ''bob''" by simp
  have b: "validate_token_amount 1000" by (simp add: validate_token_amount_def)
  have c: "dict_get (transactions example_manager) ''t2'' = None"
    by (simp add: example_manager_def dict_get_def)
  have v: "buyer_volume_of example_manager ''alice'' = Inr 1000"
    by (simp add: buyer_volume_of_def example_manager_def example_transaction_def dict_get_def)
  from C4_create_transaction_stops_at_balance_check
         [OF a b, of example_manager "''t2''" 3 True "''agent''" None]
  show ?thesis using a b c v by simp
qed

text \<open>
  C5 (as the source behaves). Resolving a disputed transaction with \<open>refund = False\<close>
  succeeds and records outcome, refunded flag and resolution time, but the state is not
  touched: the transaction is still \<^verbatim>\<open>DISPUTED\<close> afterwards, not \<^verbatim>\<open>COMPLETED\<close>.
\<close>

theorem C5_resolve_without_refund_stays_disputed:
  assumes "dict_get (transactions tm) tid = Some t"
      and "state t = DISPUTED"
      and "dispute t = Some d"
  shows "fst (resolve_dispute tm now rs tid res False) = Inr True
     \<and> dict_get (transactions (snd (resolve_dispute tm now rs tid res False))) tid =
         Some (t\<lparr> dispute := Some (d\<lparr> resolution :=
                 Some \<lparr> outcome = res, refunded = False, resolved_at = now \<rparr> \<rparr>) \<rparr>)
     \<and> map_option state
           (dict_get (transactions (snd (resolve_dispute tm now rs tid res False))) tid)
         = Some DISPUTED"
  using assms by (simp add: resolve_dispute_def Let_def dict_get_dict_set)

theorem C5_resolve_without_refund_stays_disputed_witness:
  "fst (resolve_dispute disputed_manager 9 None ''t1'' ''rejected'' False) = Inr True
   \<and> map_option state
         (dict_get (transactions (snd (resolve_dispute disputed_manager 9 None ''t1''
                                         ''rejected'' False))) ''t1'')
       = Some DISPUTED
   \<and> map_option state
         (dict_get (transactions (snd (resolve_dispute disputed_manager 9 None ''t1''
                                         ''rejected'' False))) ''t1'')
       \<noteq> Some COMPLETED"
proof -
  have s: "state disputed_transaction = DISPUTED"
    by (simp add: disputed_transaction_def)
  have d: "dispute disputed_transaction =
             Some \<lparr> opened_by = ''alice'', reason = ''broken'', opened_at = 5, resolution = None \<rparr>"
    by (simp add: disputed_transaction_def)
  from C5_resolve_without_refund_stays_disputed [OF disputed_lookup s d, of 9 None "''rejected''"]
  show ?thesis using s by simp
qed

text \<open>
  C9. For a transaction \<open>t\<close> stored under \<open>tid\<close>: a dispute that succeeds was opened by
  the buyer or the seller on a \<^verbatim>\<open>COMPLETED\<close> or \<^verbatim>\<open>FAILED\<close> transaction; any other
  caller gets \<^verbatim>\<open>TRANS_005\<close> (unauthorized), and the buyer or seller on any other
  state gets \<^verbatim>\<open>TRANS_006\<close> (cannot be disputed in this state), both without any change
  to the manager; the authorization check comes first. The buyer or seller on a
  \<^verbatim>\<open>COMPLETED\<close> or \<^verbatim>\<open>FAILED\<close> transaction moves it to \<^verbatim>\<open>DISPUTED\<close>.
  \<^verbatim>\<open>resolve_dispute\<close> succeeds only on a \<^verbatim>\<open>DISPUTED\<close> transaction and otherwise
  fails with \<^verbatim>\<open>TRANS_007\<close>, again without any change.
\<close>

theorem C9_dispute_legality:
  assumes "dict_get (transactions tm) tid = Some t"
  shows "(fst (dispute_transaction tm now tid u why) = Inr True \<longrightarrow>
            state t \<in> {COMPLETED, FAILED} \<and> u \<in> {buyer_id t, seller_id t})
     \<and> (u \<notin> {buyer_id t, seller_id t} \<longrightarrow>
          dispute_transaction tm now tid u why =
            (Inl (CustomException ''TRANS_005'' ''Unauthorized transaction access''), tm))
     \<and> (u \<in> {buyer_id t, seller_id t} \<and> state t \<notin> {COMPLETED, FAILED} \<longrightarrow>
          dispute_transaction tm now tid u why =
            (Inl (CustomException ''TRANS_006''
                    ''Transaction cannot be disputed in current state''), tm))
     \<and> (u \<in> {buyer_id t, seller_id t} \<and> state t \<in> {COMPLETED, FAILED} \<longrightarrow>
          fst (dispute_transaction tm now tid u why) = Inr True
          \<and> map_option state
                (dict_get (transactions (snd (dispute_transaction tm now tid u why))) tid)
              = Some DISPUTED)
     \<and> (fst (resolve_dispute tm now rs tid res refund) = Inr True \<longrightarrow> state t = DISPUTED)
     \<and> (state t \<noteq> DISPUTED \<longrightarrow>
          resolve_dispute tm now rs tid res refund =
            (Inl (CustomException ''TRANS_007'' ''Transaction is not disputed''), tm))"
  using assms
  by (auto simp: dispute_transaction_def resolve_dispute_def Let_def dict_get_dict_set
           split: option.splits if_splits)

theorem C9_dispute_legality_witness:
  "fst (dispute_transaction example_manager 5 ''t1'' ''alice'' ''broken'') = Inr True
   \<and> map_option state
         (dict_get (transactions (snd (dispute_transaction example_manager 5 ''t1''
                                         ''alice'' ''broken''))) ''t1'') = Some DISPUTED
   \<and> dispute_transaction example_manager 5 ''t1'' ''mallory'' ''broken'' =
       (Inl (CustomException ''TRANS_005'' ''Unauthorized transaction access''), example_manager)
   \<and> dispute_transaction disputed_manager 5 ''t1'' ''bob'' ''again'' =
       (Inl (CustomException ''TRANS_006''
               ''Transaction cannot be disputed in current state''), disputed_manager)
   \<and> resolve_dispute example_manager 5 None ''t1'' ''rejected'' True =
       (Inl (CustomException ''TRANS_007'' ''Transaction is not disputed''), example_manager)"
proof -
  have e: "state example_transaction = COMPLETED" "buyer_id example_transaction = ''alice''"
          "seller_id example_transaction = ''bob''"
    by (simp_all add: example_transaction_def)
  have d: "state disputed_transaction = DISPUTED" "buyer_id disputed_transaction = ''alice''"
          "seller_id disputed_transaction = ''bob''"
    by (simp_all add: disputed_transaction_def example_transaction_def)
  from C9_dispute_legality [OF example_lookup, of 5 "''alice''" "''broken''" None "''rejected''" True]
  have 1: "fst (dispute_transaction example_manager 5 ''t1'' ''alice'' ''broken'') = Inr True
     \<and> map_option state
         (dict_get (transactions (snd (dispute_transaction example_manager 5 ''t1''
                                         ''alice'' ''broken''))) ''t1'') = Some DISPUTED
     \<and> resolve_dispute example_manager 5 None ''t1'' ''rejected'' True =
       (Inl (CustomException ''TRANS_007'' ''Transaction is not disputed''), example_manager)"
    by (simp add: e)
  from C9_dispute_legality [OF example_lookup, of 5 "''mallory''" "''broken''" None "''rejected''" True]
  have 2: "dispute_transaction example_manager 5 ''t1'' ''mallory'' ''broken'' =
       (Inl (CustomException ''TRANS_005'' ''Unauthorized transaction access''), example_manager)"
    by (simp add: e)
  from C9_dispute_legality [OF disputed_lookup, of 5 "''bob''" "''again''" None "''rejected''" True]
  have 3: "dispute_transaction disputed_manager 5 ''t1'' ''bob'' ''again'' =
       (Inl (CustomException ''TRANS_006''
               ''Transaction cannot be disputed in current state''), disputed_manager)"
    by (simp add: d)
  show ?thesis using 1 2 3 by simp
qed

subsection \<open>Supply stabilizer\<close>

text \<open>What a tick that reaches the end of the adjusting phase has returned and written.\<close>

lemma adjusting_tick:
  assumes "check_and_adjust mint burn s now = (Inr (Some r), s')"
  shows "res_adjustment r = max (min (res_adjustment r) (max_adjustment s)) (- max_adjustment s)
     \<and> res_supply_change r = current_supply (market_state s) * res_adjustment r
     \<and> res_price_error r = (current_price (market_state s) - target_price s) / target_price s
     \<and> total_adjustments (stab_metrics s') = total_adjustments (stab_metrics s) + 1
     \<and> failed_adjustments (stab_metrics s') =
         failed_adjustments (stab_metrics s) + (if res_success r then 0 else 1)
     \<and> successful_adjustments (stab_metrics s') =
         successful_adjustments (stab_metrics s) + (if res_success r then 1 else 0)
     \<and> integral_error (control_params s') =
         integral_error (control_params s) + res_price_error r * of_int (adjustment_interval s)
     \<and> last_error (control_params s') = res_price_error r
     \<and> last_adjustment_time s' = now"
proof -
  have a: "\<not> now - last_adjustment_time s < of_int (adjustment_interval s)"
    using assms by (auto simp: check_and_adjust_def)
  have b: "target_price s \<noteq> 0"
    using assms a by (auto simp: check_and_adjust_def)
  have c: "\<not> \<bar>(current_price (market_state s) - target_price s) / target_price s\<bar>
             \<le> price_tolerance s"
    using assms a b by (auto simp: check_and_adjust_def Let_def)
  have d: "adjustment_interval s \<noteq> 0"
    using assms a b c by (auto simp: check_and_adjust_def Let_def)
  from assms show ?thesis
    unfolding check_and_adjust_def Let_def
    by (simp only: a b c d if_False if_True not_False_eq_True) (cases "res_success r"; auto)
qed

lemma example_tick_result:
  "fst (check_and_adjust (\<lambda>x. ok) (\<lambda>x. ok) example_stabilizer 3600) =
     Inr (Some \<lparr> res_timestamp = 3600, res_price_error = 1 / 20, res_adjustment = - (1 / 20),
                 res_supply_change = - 50000, res_success = ok \<rparr>)"
  by (simp add: check_and_adjust_def example_stabilizer_def init_stabilizer_def Let_def)

lemma example_tick:
  "check_and_adjust (\<lambda>x. ok) (\<lambda>x. ok) example_stabilizer 3600 =
     (Inr (Some \<lparr> res_timestamp = 3600, res_price_error = 1 / 20, res_adjustment = - (1 / 20),
                  res_supply_change = - 50000, res_success = ok \<rparr>),
      snd (check_and_adjust (\<lambda>x. ok) (\<lambda>x. ok) example_stabilizer 3600))"
  using example_tick_result [of ok] by (simp add: prod_eq_iff)

text \<open>
  C7. On every tick that reaches the adjusting phase the adjustment returned is at most
  \<open>max_adjustment\<close> in magnitude, whatever the price, the gains and the accumulated
  integral and last error are; for a non-negative \<open>max_adjustment\<close> this is
  \<open>-max_adjustment \<le> adjustment \<le> max_adjustment\<close>. The supply change is the
  current supply times that fraction.
\<close>

theorem C7_adjustment_bounded:
  assumes "check_and_adjust mint burn s now = (Inr (Some r), s')"
  shows "\<bar>res_adjustment r\<bar> \<le> \<bar>max_adjustment s\<bar>
     \<and> (0 \<le> max_adjustment s \<longrightarrow>
          - max_adjustment s \<le> res_adjustment r \<and> res_adjustment r \<le> max_adjustment s)
     \<and> res_supply_change r = current_supply (market_state s) * res_adjustment r"
proof -
  from adjusting_tick [OF assms]
  have e: "res_adjustment r = max (min (res_adjustment r) (max_adjustment s)) (- max_adjustment s)"
    and f: "res_supply_change r = current_supply (market_state s) * res_adjustment r"
    by simp_all
  from e have "\<bar>res_adjustment r\<bar> \<le> \<bar>max_adjustment s\<bar>" by (auto simp: max_def min_def split: if_splits)
  moreover from e have "0 \<le> max_adjustment s \<longrightarrow>
          - max_adjustment s \<le> res_adjustment r \<and> res_adjustment r \<le> max_adjustment s"
    by (auto simp: max_def min_def split: if_splits)
  ultimately show ?thesis using f by simp
qed

theorem C7_adjustment_bounded_witness:
  "fst (check_and_adjust (\<lambda>x. True) (\<lambda>x. True) example_stabilizer 3600) =
     Inr (Some \<lparr> res_timestamp = 3600, res_price_error = 1 / 20, res_adjustment = - (1 / 20),
                 res_supply_change = - 50000, res_success = True \<rparr>)
   \<and> (0::rat) \<le> max_adjustment example_stabilizer
   \<and> - max_adjustment example_stabilizer \<le> - (1 / 20)
   \<and> - (1 / 20) \<le> max_adjustment example_stabilizer"
proof -
  have m: "max_adjustment example_stabilizer = 5 / 100"
    by (simp add: example_stabilizer_def init_stabilizer_def)
  from C7_adjustment_bounded [OF example_tick [of True]]
  show ?thesis using example_tick_result [of True] m by simp
qed

text \<open>
  C8, as stated, fails: on the example tick the burn fails, and the tick still moves
  \<open>integral_error\<close> from 0 to 180 and \<open>last_error\<close> from 0 to 1/20.
\<close>

theorem C8_failed_tick_changes_pid_state:
  "res_success (the (projr (fst (check_and_adjust (\<lambda>x. False) (\<lambda>x. False)
                                  example_stabilizer 3600)))) = False
   \<and> failed_adjustments (stab_metrics (snd (check_and_adjust (\<lambda>x. False) (\<lambda>x. False)
                                               example_stabilizer 3600))) = 1
   \<and> integral_error (control_params example_stabilizer) = 0
   \<and> integral_error (control_params (snd (check_and_adjust (\<lambda>x. False) (\<lambda>x. False)
                                             example_stabilizer 3600))) = 180
   \<and> last_error (control_params example_stabilizer) = 0
   \<and> last_error (control_params (snd (check_and_adjust (\<lambda>x. False) (\<lambda>x. False)
                                         example_stabilizer 3600))) = 1 / 20"
  by (simp add: check_and_adjust_def example_stabilizer_def init_stabilizer_def Let_def)

text \<open>
  C8, amended. A tick whose mint or burn fails increments the failure counter (and the
  total) and leaves the success counter alone; it updates the controller exactly as a
  successful tick does: \<open>integral_error\<close> has grown by \<open>price_error * interval\<close>,
  \<open>last_error\<close> is the tick's price error and \<open>last_adjustment_time\<close> is the tick's time.
\<close>

theorem C8_failed_tick_updates_pid_state:
  assumes "check_and_adjust mint burn s now = (Inr (Some r), s')"
      and "\<not> res_success r"
  shows "failed_adjustments (stab_metrics s') = failed_adjustments (stab_metrics s) + 1
     \<and> total_adjustments (stab_metrics s') = total_adjustments (stab_metrics s) + 1
     \<and> successful_adjustments (stab_metrics s') = successful_adjustments (stab_metrics s)
     \<and> integral_error (control_params s') =
         integral_error (control_params s) + res_price_error r * of_int (adjustment_interval s)
     \<and> last_error (control_params s') = res_price_error r
     \<and> last_adjustment_time s' = now"
  using adjusting_tick [OF assms(1)] assms(2) by simp

theorem C8_failed_tick_updates_pid_state_witness:
  "failed_adjustments (stab_metrics (snd (check_and_adjust (\<lambda>x. False) (\<lambda>x. False)
                                             example_stabilizer 3600)))
     = failed_adjustments (stab_metrics example_stabilizer) + 1
   \<and> integral_error (control_params (snd (check_and_adjust (\<lambda>x. False) (\<lambda>x. False)
                                             example_stabilizer 3600)))
     = integral_error (control_params example_stabilizer)
         + (1 / 20) * of_int (adjustment_interval example_stabilizer)
   \<and> last_error (control_params (snd (check_and_adjust (\<lambda>x. False) (\<lambda>x. False)
                                         example_stabilizer 3600))) = 1 / 20"
proof -
  have f: "\<not> res_success \<lparr> res_timestamp = 3600, res_price_error = 1 / 20,
                            res_adjustment = - (1 / 20), res_supply_change = - 50000,
                            res_success = False \<rparr>"
    by simp
  from C8_failed_tick_updates_pid_state [OF example_tick [of False] f]
  show ?thesis by simp
qed

lemma comprehension_recent:
  "xs \<noteq> [] \<Longrightarrow> comprehension (recent_cond c) xs = Inl (NameError ''timestamp'')"
  by (cases xs) (simp_all add: recent_cond_def)

lemma deque_append_last: "last (deque_append n xs x) = x"
  by (simp add: deque_append_def)

lemma append_samples_volume: "volume_history (append_samples s now txs) \<noteq> []"
  by (simp add: append_samples_def deque_append_def)

text \<open>
  C10. A call of \<^verbatim>\<open>update_market_state\<close> with a non-empty list always ends in
  \<^verbatim>\<open>STAB_002\<close>, whatever the contract answers for the total supply: the liquidity
  depth reads the unbound name \<^verbatim>\<open>timestamp\<close> on the volume history, which is never
  empty at that point. The stabilizer it leaves behind has the new price and volume
  samples at the end of the two histories and the market state it had before.
\<close>

theorem C10_update_market_state_fails:
  assumes "new_transactions \<noteq> []"
  shows "update_market_state s now supply_reply new_transactions =
       (Inl (CustomException ''STAB_002'' ''Market state update failed''),
        append_samples s now new_transactions)
     \<and> calculate_liquidity_depth (append_samples s now new_transactions) now
         = Inl (NameError ''timestamp'')
     \<and> last (price_history (append_samples s now new_transactions))
         = (now, new_weighted_price s new_transactions)
     \<and> last (volume_history (append_samples s now new_transactions))
         = (now, new_total_volume new_transactions)
     \<and> market_state (append_samples s now new_transactions) = market_state s"
proof -
  let ?s1 = "append_samples s now new_transactions"
  have ld: "calculate_liquidity_depth ?s1 now = Inl (NameError ''timestamp'')"
    by (simp add: calculate_liquidity_depth_def comprehension_recent append_samples_volume)
  have upd: "update_market_state s now supply_reply new_transactions =
     (Inl (CustomException ''STAB_002'' ''Market state update failed''), ?s1)"
    using assms ld by (simp add: update_market_state_def Let_def split: sum.splits)
  have h: "last (price_history ?s1) = (now, new_weighted_price s new_transactions)"
          "last (volume_history ?s1) = (now, new_total_volume new_transactions)"
          "market_state ?s1 = market_state s"
    by (simp_all add: append_samples_def deque_append_last)
  show ?thesis using upd ld h by simp
qed

theorem C10_update_market_state_fails_witness:
  "[\<lparr> mtx_amount = 10, mtx_price = 2, mtx_token_type = UTILITY \<rparr>] \<noteq> []
   \<and> fst (update_market_state example_stabilizer 10 (Inr 1000000)
            [\<lparr> mtx_amount = 10, mtx_price = 2, mtx_token_type = UTILITY \<rparr>])
       = Inl (CustomException ''STAB_002'' ''Market state update failed'')
   \<and> price_history (snd (update_market_state example_stabilizer 10 (Inr 1000000)
            [\<lparr> mtx_amount = 10, mtx_price = 2, mtx_token_type = UTILITY \<rparr>])) = [(10, 2)]
   \<and> volume_history (snd (update_market_state example_stabilizer 10 (Inr 1000000)
            [\<lparr> mtx_amount = 10, mtx_price = 2, mtx_token_type = UTILITY \<rparr>])) = [(10, 10)]"
proof -
  have ne: "[\<lparr> mtx_amount = 10, mtx_price = 2, mtx_token_type = UTILITY \<rparr>] \<noteq> []" by simp
  have a: "append_samples example_stabilizer 10
             [\<lparr> mtx_amount = 10, mtx_price = 2, mtx_token_type = UTILITY \<rparr>]
           = example_stabilizer\<lparr> price_history := [(10, 2)], volume_history := [(10, 10)] \<rparr>"
    by (simp add: append_samples_def example_stabilizer_def init_stabilizer_def deque_append_def
                  new_weighted_price_def new_total_volume_def utility_txs_def)
  from C10_update_market_state_fails [OF ne, of example_stabilizer 10 "Inr 1000000"]
  show ?thesis by (simp add: a)
qed

subsection \<open>Token ledger\<close>

lemma sum_list_upd_notin:
  "a \<notin> set xs \<Longrightarrow> sum_list (map (\<lambda>x. (f(a := v)) x t) xs) = sum_list (map (\<lambda>x. f x t) xs)"
  by (induction xs) auto

lemma sum_list_upd_in:
  "distinct xs \<Longrightarrow> a \<in> set xs \<Longrightarrow>
   sum_list (map (\<lambda>x. (f(a := (f a)(t := f a t + d))) x t) xs)
     = sum_list (map (\<lambda>x. f x t) xs) + (d::rat)"
proof (induction xs)
  case Nil
  then show ?case by simp
next
  case (Cons x xs)
  show ?case
  proof (cases "x = a")
    case True
    then have "a \<notin> set xs" using Cons.prems by simp
    then have "sum_list (map (\<lambda>x. (f(a := (f a)(t := f a t + d))) x t) xs)
                 = sum_list (map (\<lambda>x. f x t) xs)"
      by (rule sum_list_upd_notin)
    then show ?thesis using True by (simp add: fun_upd_same del: fun_upd_apply)
  next
    case False
    then show ?thesis using Cons by simp
  qed
qed

lemma sum_list_upd_other:
  "t' \<noteq> t \<Longrightarrow>
   sum_list (map (\<lambda>x. (f(a := (f a)(t' := v))) x t) xs) = sum_list (map (\<lambda>x. f x t) xs)"
  by (induction xs) auto

lemma wf_touch: "wf_ledger l \<Longrightarrow> wf_ledger (touch a l)"
  by (auto simp: wf_ledger_def touch_def)

lemma touch_in: "a \<in> set (accounts (touch a l))"
  by (simp add: touch_def)

lemma touch_mono: "b \<in> set (accounts l) \<Longrightarrow> b \<in> set (accounts (touch a l))"
  by (simp add: touch_def)

lemma sum_touch: "wf_ledger l \<Longrightarrow> sum_balances (touch a l) t = sum_balances l t"
  by (auto simp: wf_ledger_def touch_def sum_balances_def)

lemma touch_supply: "total_supply (touch a l) = total_supply l"
  by (simp add: touch_def)

lemma touch_balance: "balance (touch a l) = balance l"
  by (simp add: touch_def)

lemma nonneg_iff: "nonneg l = (\<forall>a \<in> set (accounts l). \<forall>t. 0 \<le> balance l a t)"
proof
  assume n: "nonneg l"
  show "\<forall>a \<in> set (accounts l). \<forall>t. 0 \<le> balance l a t"
  proof (intro ballI allI)
    fix a t
    assume "a \<in> set (accounts l)"
    with n have "0 \<le> balance l a MAIN \<and> 0 \<le> balance l a UTILITY \<and> 0 \<le> balance l a GOVERNANCE"
      by (simp add: nonneg_def list_all_iff)
    then show "0 \<le> balance l a t" by (cases t) simp_all
  qed
next
  assume "\<forall>a \<in> set (accounts l). \<forall>t. 0 \<le> balance l a t"
  then show "nonneg l" by (simp add: nonneg_def list_all_iff)
qed

lemma nonneg_all: "wf_ledger l \<Longrightarrow> nonneg l \<Longrightarrow> 0 \<le> balance l a t"
  by (cases "a \<in> set (accounts l)") (auto simp: nonneg_iff wf_ledger_def)

lemma nonneg_touch: "wf_ledger l \<Longrightarrow> nonneg l \<Longrightarrow> nonneg (touch a l)"
  by (auto simp: nonneg_iff touch_def wf_ledger_def)

lemma wf_add: "wf_ledger l \<Longrightarrow> a \<in> set (accounts l) \<Longrightarrow> wf_ledger (add_balance a t d l)"
  by (auto simp: wf_ledger_def add_balance_def)

lemma accounts_add: "accounts (add_balance a t d l) = accounts l"
  by (simp add: add_balance_def)

lemma supply_add: "total_supply (add_balance a t d l) = total_supply l"
  by (simp add: add_balance_def)

lemma balance_add:
  "balance (add_balance a t d l) b u = (if b = a \<and> u = t then balance l a t + d else balance l b u)"
  by (simp add: add_balance_def)

lemma nonneg_add: "nonneg l \<Longrightarrow> 0 \<le> balance l a t + d \<Longrightarrow> nonneg (add_balance a t d l)"
  by (simp add: nonneg_iff accounts_add balance_add)

lemma sum_add:
  "wf_ledger l \<Longrightarrow> a \<in> set (accounts l) \<Longrightarrow>
   sum_balances (add_balance a t' d l) t = sum_balances l t + (if t' = t then d else 0)"
  using sum_list_upd_in [of "accounts l" a "balance l" t d]
        sum_list_upd_other [of t' t "balance l" a "balance l a t' + d" "accounts l"]
  by (auto simp: wf_ledger_def add_balance_def sum_balances_def)

lemma transfer_sum:
  assumes "wf_ledger l" "ledger_transfer l f g a ty = Inr l'"
  shows "wf_ledger l' \<and> sum_balances l' t = sum_balances l t \<and> total_supply l' = total_supply l"
proof -
  let ?l1 = "touch g (touch f l)"
  let ?l2 = "add_balance f ty (- a) ?l1"
  have w1: "wf_ledger ?l1" using assms(1) by (simp add: wf_touch)
  have f1: "f \<in> set (accounts ?l1)" by (simp add: touch_in touch_mono)
  have g1: "g \<in> set (accounts ?l1)" by (simp add: touch_in)
  have w2: "wf_ledger ?l2" using w1 f1 by (rule wf_add)
  have g2: "g \<in> set (accounts ?l2)" using g1 by (simp add: accounts_add)
  have eq: "l' = add_balance g ty a ?l2"
    using assms(2) by (simp add: ledger_transfer_def split: if_splits)
  have s1: "sum_balances ?l1 t = sum_balances l t"
    using assms(1) by (simp add: sum_touch wf_touch)
  have s2: "sum_balances ?l2 t = sum_balances ?l1 t + (if ty = t then - a else 0)"
    using w1 f1 by (rule sum_add)
  have s3: "sum_balances l' t = sum_balances ?l2 t + (if ty = t then a else 0)"
    unfolding eq using w2 g2 by (rule sum_add)
  have "wf_ledger l'" unfolding eq using w2 g2 by (rule wf_add)
  moreover have "sum_balances l' t = sum_balances l t" using s1 s2 s3 by simp
  moreover have "total_supply l' = total_supply l"
    unfolding eq by (simp add: supply_add touch_supply)
  ultimately show ?thesis by simp
qed

lemma transfer_nonneg:
  assumes "wf_ledger l" "nonneg l" "ledger_transfer l f g a ty = Inr l'"
  shows "nonneg l'"
proof -
  let ?l1 = "touch g (touch f l)"
  let ?l2 = "add_balance f ty (- a) ?l1"
  have pos: "0 < a" and enough: "a \<le> balance l f ty"
    using assms(3) by (simp_all add: ledger_transfer_def split: if_splits)
  have eq: "l' = add_balance g ty a ?l2"
    using assms(3) by (simp add: ledger_transfer_def split: if_splits)
  have w1: "wf_ledger ?l1" using assms(1) by (simp add: wf_touch)
  have n1: "nonneg ?l1" using assms(1,2) by (simp add: nonneg_touch wf_touch)
  have b1: "balance ?l1 = balance l" by (simp add: touch_balance)
  have n2: "nonneg ?l2" using n1 enough by (intro nonneg_add [of ?l1]) (simp_all add: b1)
  have f1: "f \<in> set (accounts ?l1)" by (simp add: touch_in touch_mono)
  have w2: "wf_ledger ?l2" using w1 f1 by (rule wf_add)
  have "0 \<le> balance ?l2 g ty" using w2 n2 by (rule nonneg_all)
  then show ?thesis unfolding eq using n2 pos by (intro nonneg_add [of ?l2]) simp_all
qed

lemma wf_supply_upd: "wf_ledger (l\<lparr>total_supply := s\<rparr>) = wf_ledger l"
  by (simp add: wf_ledger_def)

lemma sum_supply_upd: "sum_balances (l\<lparr>total_supply := s\<rparr>) t = sum_balances l t"
  by (simp add: sum_balances_def)


lemma mint_sum:
  assumes "wf_ledger l" "ledger_mint l ty a = Inr l'"
  shows "wf_ledger l' \<and> sum_balances l' t = sum_balances l t + (if ty = t then a else 0)
         \<and> total_supply l' t = total_supply l t + (if ty = t then a else 0)"
proof -
  let ?l1 = "touch treasury l"
  have w1: "wf_ledger ?l1" using assms(1) by (simp add: wf_touch)
  have t1: "treasury \<in> set (accounts ?l1)" by (simp add: touch_in)
  have eq: "l' = (add_balance treasury ty a ?l1)
                   \<lparr> total_supply := (total_supply l)(ty := total_supply l ty + a) \<rparr>"
    using assms(2) by (simp add: ledger_mint_def split: if_splits)
  show ?thesis unfolding eq
    using wf_add [OF w1 t1] sum_add [OF w1 t1, of ty a t] assms(1)
    by (simp add: wf_supply_upd sum_supply_upd sum_touch)
qed


lemma burn_sum:
  assumes "wf_ledger l" "ledger_burn l ty a = Inr l'"
  shows "wf_ledger l' \<and> sum_balances l' t = sum_balances l t - (if ty = t then a else 0)
         \<and> total_supply l' t = total_supply l t - (if ty = t then a else 0)"
proof -
  let ?l1 = "touch treasury l"
  have w1: "wf_ledger ?l1" using assms(1) by (simp add: wf_touch)
  have t1: "treasury \<in> set (accounts ?l1)" by (simp add: touch_in)
  have eq: "l' = (add_balance treasury ty (- a) ?l1)
                   \<lparr> total_supply := (total_supply l)(ty := total_supply l ty - a) \<rparr>"
    using assms(2) by (simp add: ledger_burn_def split: if_splits)
  show ?thesis unfolding eq
    using wf_add [OF w1 t1] sum_add [OF w1 t1, of ty "- a" t] assms(1)
    by (simp add: wf_supply_upd sum_supply_upd sum_touch)
qed


lemma apply_op_sum:
  assumes "wf_ledger l" "apply_op l x = Inr l'"
  shows "wf_ledger l' \<and> sum_balances l' t = sum_balances l t + minted t [x] - burned t [x]
         \<and> total_supply l' t = total_supply l t + minted t [x] - burned t [x]"
proof (cases x)
  case (Transfer f g a ty)
  then show ?thesis using transfer_sum [OF assms(1), of f g a ty l' t] assms(2) by simp
next
  case (Mint ty a)
  then show ?thesis using mint_sum [OF assms(1), of ty a l' t] assms(2) by simp
next
  case (Burn ty a)
  then show ?thesis using burn_sum [OF assms(1), of ty a l' t] assms(2) by simp
qed

lemma minted_Cons: "minted t (x # xs) = minted t [x] + minted t xs"
  by (cases x) auto

lemma burned_Cons: "burned t (x # xs) = burned t [x] + burned t xs"
  by (cases x) auto

lemma run_ops_sum:
  "wf_ledger l \<Longrightarrow> run_ops l ops = Inr l' \<Longrightarrow>
   wf_ledger l' \<and> sum_balances l' t = sum_balances l t + minted t ops - burned t ops
   \<and> total_supply l' t = total_supply l t + minted t ops - burned t ops"
proof (induction ops arbitrary: l)
  case Nil
  then show ?case by simp
next
  case (Cons x xs)
  then obtain l1 where a: "apply_op l x = Inr l1" and r: "run_ops l1 xs = Inr l'"
    by (auto split: sum.splits)
  from apply_op_sum [OF Cons.prems(1) a, of t] Cons.IH [OF _ r]
  show ?case by (simp add: minted_Cons [of t x xs] burned_Cons [of t x xs])
qed



text \<open>
  A step of an executor over the registry is a registry step when it leaves the registry
  as it is or makes one successful \<open>Transfer\<close> of token type \<open>ty\<close>.
\<close>

lemma registry_send_step:
  "snd (registry_send ty l x) = l
   \<or> (\<exists>f g a. ledger_transfer l f g a ty = Inr (snd (registry_send ty l x)))"
  by (auto simp: registry_send_def split: list.splits arg.splits sum.splits)

lemma send_transaction_registry_step:
  assumes "prepare nd = registry_prepare" "send_raw_transaction nd = registry_send ty"
      and "\<And>l h. snd (wait_for_transaction_receipt nd l h) = l"
  shows "snd (send_transaction nd l rq) = l
   \<or> (\<exists>f g a. ledger_transfer l f g a ty = Inr (snd (send_transaction nd l rq)))"
proof (cases "registry_prepare l rq")
  case (Inl e)
  then show ?thesis by (simp add: send_transaction_def assms(1))
next
  case (Inr x)
  obtain r l1 where s: "registry_send ty l x = (r, l1)" by (cases "registry_send ty l x") auto
  have l1: "l1 = l \<or> (\<exists>f g a. ledger_transfer l f g a ty = Inr l1)"
    using registry_send_step [of ty l x] s by simp
  show ?thesis
  proof (cases r)
    case (Inl e)
    then show ?thesis using Inr s l1 by (simp add: send_transaction_def assms(1,2))
  next
    case (Inr h)
    obtain q l2 where w: "wait_for_transaction_receipt nd l1 h = (q, l2)"
      by (cases "wait_for_transaction_receipt nd l1 h") auto
    have "l2 = l1" using assms(3) [of l1 h] w by simp
    then show ?thesis using \<open>registry_prepare l rq = Inr x\<close> Inr s w l1
      by (cases q) (simp_all add: send_transaction_def assms(1,2))
  qed
qed

lemma ledger_executor_step:
  "snd (ledger_executor ty l rq) = l
   \<or> (\<exists>f g a. ledger_transfer l f g a ty = Inr (snd (ledger_executor ty l rq)))"
  unfolding ledger_executor_def
  by (rule send_transaction_registry_step) (simp_all add: registry_node_def)


lemma registry_step_keeps:
  assumes "wf_ledger l"
      and "l1 = l \<or> (\<exists>f g a. ledger_transfer l f g a ty = Inr l1)"
  shows "wf_ledger l1 \<and> sum_balances l1 t = sum_balances l t \<and> (nonneg l \<longrightarrow> nonneg l1)"
  using assms(2)
proof
  assume "l1 = l"
  then show ?thesis using assms(1) by simp
next
  assume "\<exists>f g a. ledger_transfer l f g a ty = Inr l1"
  then obtain f g a where m: "ledger_transfer l f g a ty = Inr l1" by blast
  show ?thesis using transfer_sum [OF assms(1) m, of t] transfer_nonneg [OF assms(1) _ m] by blast
qed

text \<open>
  Whatever \<^verbatim>\<open>transfer\<close> returns, the chain it leaves is the chain before the call, or
  after the balance read, or after the balance read and the one move: the ledger sends
  at most these two requests and writes no balance itself.
\<close>

lemma get_balance_chain:
  "snd (snd (get_balance ex (tm, c) a tt)) = c
   \<or> snd (snd (get_balance ex (tm, c) a tt)) = snd (ex c (balanceOf_request a))"
  by (auto simp: get_balance_def Let_def split: option.splits prod.splits)

lemma transfer_chain:
  "snd (snd (transfer ex (tm, c) new_id now st et from_address to_address amt tt key)) \<in>
     {c, snd (ex c (balanceOf_request from_address)),
      snd (ex (snd (ex c (balanceOf_request from_address)))
              (transfer_request to_address amt key))}"
proof -
  obtain r tm1 c1 where g: "get_balance ex (tm, c) from_address tt = (r, tm1, c1)"
    by (cases "get_balance ex (tm, c) from_address tt") auto
  have c1: "c1 = c \<or> c1 = snd (ex c (balanceOf_request from_address))"
    using get_balance_chain [of ex tm c from_address tt] g by simp
  show ?thesis
  proof (cases r)
    case (Inl e)
    then show ?thesis using g c1 by (auto simp: transfer_def Let_def)
  next
    case (Inr b)
    then have "c1 = snd (ex c (balanceOf_request from_address))"
      using g by (auto simp: get_balance_def Let_def split: if_splits option.splits prod.splits)
    then show ?thesis using g Inr
      by (auto simp: transfer_def Let_def transfer_failed_def split: option.splits prod.splits)
  qed
qed

lemma transfer_keeps:
  assumes step: "\<And>l rq. snd (ex l rq) = l
                   \<or> (\<exists>f g a. ledger_transfer l f g a ty = Inr (snd (ex l rq)))"
      and wf: "wf_ledger l"
  shows "sum_balances (snd (snd (transfer ex (tm, l) new_id now st et
                                   from_address to_address amt tt key))) t = sum_balances l t
     \<and> (nonneg l \<longrightarrow>
          nonneg (snd (snd (transfer ex (tm, l) new_id now st et
                             from_address to_address amt tt key))))"
proof -
  let ?c1 = "snd (ex l (balanceOf_request from_address))"
  let ?c2 = "snd (ex ?c1 (transfer_request to_address amt key))"
  have k1: "wf_ledger ?c1 \<and> sum_balances ?c1 t = sum_balances l t \<and> (nonneg l \<longrightarrow> nonneg ?c1)"
    using registry_step_keeps [OF wf, of ?c1 ty t] step [of l "balanceOf_request from_address"]
    by blast
  then have k2: "sum_balances ?c2 t = sum_balances l t \<and> (nonneg l \<longrightarrow> nonneg ?c2)"
    using registry_step_keeps [of ?c1 ?c2 ty t]
          step [of ?c1 "transfer_request to_address amt key"]
    by auto
  from transfer_chain [of ex tm l new_id now st et from_address to_address amt tt key]
  show ?thesis using k1 k2 by auto
qed









lemma wf_empty: "wf_ledger empty_ledger"
  by (simp add: wf_ledger_def empty_ledger_def)



lemma mint_transfer_burn_runs: "\<not> isl (run_ops empty_ledger mint_transfer_burn)"
  by (simp add: mint_transfer_burn_def ledger_mint_def ledger_transfer_def ledger_burn_def
                touch_def add_balance_def empty_ledger_def treasury_def addr_a_def)

lemma mint_transfer_burn_result:
  "run_ops empty_ledger mint_transfer_burn = Inr (projr (run_ops empty_ledger mint_transfer_burn))"
  using mint_transfer_burn_runs by (cases "run_ops empty_ledger mint_transfer_burn") simp_all


text \<open>
  On the source's own \<^verbatim>\<open>send_transaction\<close> no balance read answers: its reply never
  has \<^verbatim>\<open>data\<close>, so \<^verbatim>\<open>get_balance\<close> ends in \<^verbatim>\<open>TOKEN_005\<close> on every node.
\<close>

lemma get_balance_send_transaction:
  "validate_ethereum_address a \<Longrightarrow>
   fst (get_balance (send_transaction nd) (tm, c) a tt) =
     Inl (CustomException ''TOKEN_005'' ''Failed to fetch balance'')"
  by (auto simp: get_balance_def Let_def send_transaction_def fail_result_def
           split: option.splits prod.splits sum.splits)

text \<open>
  C1. On the registry, from a well-formed state: after any sequence of successful
  Transfers, Mints and Burns the sum of all balances of a token type is the sum before
  plus what was minted minus what was burned of that type, exactly, and the total supply
  moves by the same amount, so a registry whose supply equals its sum of balances keeps
  that equality. A successful Transfer leaves the sum of every token type as it was,
  and so does every call of the source's \<^verbatim>\<open>transfer\<close> that runs against the
  registry's executor, whatever it returns.
\<close>

theorem C1_conservation:
  assumes "wf_ledger l"
  shows "(run_ops l ops = Inr l' \<longrightarrow>
            sum_balances l' t = sum_balances l t + minted t ops - burned t ops
          \<and> total_supply l' t = total_supply l t + minted t ops - burned t ops
          \<and> (sum_balances l t = total_supply l t \<longrightarrow>
               sum_balances l' t = total_supply l t + minted t ops - burned t ops
             \<and> sum_balances l' t = total_supply l' t))
     \<and> (ledger_transfer l f g a ty = Inr l'' \<longrightarrow> sum_balances l'' t = sum_balances l t)
     \<and> sum_balances (snd (snd (transfer (ledger_executor ty) (tm, l) new_id now st et
                                   from_address to_address amt tt key))) t = sum_balances l t"
proof -
  have 1: "run_ops l ops = Inr l' \<longrightarrow>
            sum_balances l' t = sum_balances l t + minted t ops - burned t ops
          \<and> total_supply l' t = total_supply l t + minted t ops - burned t ops"
    using run_ops_sum [OF assms, of ops l' t] by blast
  have 2: "ledger_transfer l f g a ty = Inr l'' \<longrightarrow> sum_balances l'' t = sum_balances l t"
    using transfer_sum [OF assms, of f g a ty l'' t] by blast
  have 3: "sum_balances (snd (snd (transfer (ledger_executor ty) (tm, l) new_id now st et
                                   from_address to_address amt tt key))) t = sum_balances l t"
    using transfer_keeps [of "ledger_executor ty", OF ledger_executor_step assms] by blast
  show ?thesis using 1 2 3 by simp
qed

theorem C1_conservation_witness:
  "wf_ledger empty_ledger
   \<and> run_ops empty_ledger mint_transfer_burn
       = Inr (projr (run_ops empty_ledger mint_transfer_burn))
   \<and> minted UTILITY mint_transfer_burn = 100
   \<and> burned UTILITY mint_transfer_burn = 20
   \<and> sum_balances (projr (run_ops empty_ledger mint_transfer_burn)) UTILITY = 80
   \<and> total_supply (projr (run_ops empty_ledger mint_transfer_burn)) UTILITY = 80"
proof -
  have m: "minted UTILITY mint_transfer_burn = 100" "burned UTILITY mint_transfer_burn = 20"
    by (simp_all add: mint_transfer_burn_def)
  have z: "sum_balances empty_ledger UTILITY = 0" "total_supply empty_ledger UTILITY = 0"
    by (simp_all add: sum_balances_def empty_ledger_def)
  from C1_conservation [OF wf_empty, of mint_transfer_burn
          "projr (run_ops empty_ledger mint_transfer_burn)" UTILITY]
  show ?thesis using wf_empty mint_transfer_burn_result m z by simp
qed










end
